theory Spec2Isabelle
  imports Main
begin

section \<open>Python values, exceptions, callables\<close>

text \<open>
  The program is \<^verbatim>\<open>run-gui.py\<close>: a class \<^verbatim>\<open>ProgressUpdater\<close> that wraps a pipeline
  stage function and reports progress to a PySimpleGUI window, and the handler of the
  \<^verbatim>\<open>Run\<close> button, which wraps four stage functions of the module \<^verbatim>\<open>diffeomorphic\<close>, runs
  the pipeline, and unwraps them again.

  Arguments that travel through a wrapper are opaque to it; they are values of \<open>pyval\<close>.
  Every exception of the source is a value of \<open>error\<close>; \<open>AttributeError\<close> and \<open>KeyError\<close>
  carry the attribute or key that was missing.
\<close>

datatype pyval = PyNone | PyBool bool | PyInt int | PyStr string | PyObj string

datatype error =
    FileNotFoundError
  | TypeError
  | AttributeError string
  | KeyError string
  | ValueError
  | ZeroDivisionError
  | OtherError string

type_synonym kwargs = "(string \<times> pyval) list"

text \<open>
  A callable is a plain function of the pipeline (named by its qualified name), an
  instance of \<^verbatim>\<open>ProgressUpdater\<close> with the attributes \<^verbatim>\<open>__init__\<close> assigns, or a
  \<^verbatim>\<open>functools.partial\<close> object that holds a callable and one leading argument
  (\<^verbatim>\<open>__get__\<close> builds \<^verbatim>\<open>functools.partial(self.__call__, instance)\<close>).
  \<open>func\<close> is also what \<^verbatim>\<open>functools.update_wrapper(self, func)\<close> stores as
  \<^verbatim>\<open>__wrapped__\<close>. \<open>file_count = None\<close> says the attribute was never assigned.
  No object is reachable from two places, so an instance is modelled by its value and
  a call returns the instance as the call left it.
\<close>

datatype callable =
    Function string
  | ProgressUpdater (func: callable) (pbar_key: string) (label_key: string) (label: string)
      (increment_value: int) (runs_each_file: bool) (file_count: "int option")
  | Partial callable pyval

section \<open>The window\<close>

text \<open>
  An element of the window has the attributes that the program's \<^verbatim>\<open>update\<close> calls set.
  \<open>layout_keys\<close> are the keys that the layout of the source declares.
\<close>

record element =
  shown_value :: string
  visible :: bool
  current_count :: int
  text_color :: string

datatype attr = Value string | Visible bool | Current_count int | Text_color string

fun set_attr :: "element \<Rightarrow> attr \<Rightarrow> element" where
  "set_attr e (Value s) = e\<lparr>shown_value := s\<rparr>"
| "set_attr e (Visible b) = e\<lparr>visible := b\<rparr>"
| "set_attr e (Current_count n) = e\<lparr>current_count := n\<rparr>"
| "set_attr e (Text_color c) = e\<lparr>text_color := c\<rparr>"

definition layout_keys :: "string list" where
  "layout_keys = [''-INPUTS-'', ''-OUTPUT-'', ''-MAXDISTORTION-'', ''-NSTEPS-'',
     ''-SAVE_STEPS-'', ''-NO_UPSCALING-'', ''-PBARLABEL-'', ''-PBAR-'', ''-ERROR-'']"

text \<open>
  The five class attributes of \<^verbatim>\<open>diffeomorphic\<close> that the program reads or assigns.
\<close>

datatype slot =
    DiffeoImage_init
  | DiffeoImage_getdiffeo
  | DiffeoImage_interpolate_image
  | DiffeoImageDir_save
  | DiffeoImageDir_init

text \<open>
  The trace lists, in order, the effects that are visible outside the program state:
  an \<^verbatim>\<open>update\<close> that reached an element, \<^verbatim>\<open>window.refresh()\<close>, \<^verbatim>\<open>sleep\<close>, the entry into
  \<^verbatim>\<open>run_diffeomorph\<close>, the entry into a plain pipeline function with the arguments it
  received, and \<^verbatim>\<open>ProgressUpdater.reset()\<close>. The debugging \<^verbatim>\<open>print\<close> calls of the handler
  take no keyword argument and are left out.
\<close>

datatype event =
    Update string "attr list"
  | Refresh
  | Sleep nat
  | RunDiffeomorph
  | Entered string "pyval list" kwargs
  | Reset

record world =
  window :: "string \<Rightarrow> element"
  current_progress :: int
  diffeo :: "slot \<Rightarrow> callable"
  trace :: "event list"

text \<open>
  PySimpleGUI and the builtin \<^verbatim>\<open>int\<close> are not part of the repository. What
  \<^verbatim>\<open>window[key]\<close> does for a key that the layout does not declare (raise \<^verbatim>\<open>KeyError\<close>,
  hand out a dummy element whose \<^verbatim>\<open>update\<close> does nothing, or pick the element of another
  key) and what \<^verbatim>\<open>int(s)\<close> returns are parameters of the model.
\<close>

datatype missing_key = KeyRaises | KeyIgnored | KeyGuessed string

record library =
  on_missing_key :: "string \<Rightarrow> missing_key"
  py_int :: "string \<Rightarrow> error + int"

text \<open>
  A statement takes the world to the world it leaves and the exception it raises, if
  any; a block runs its statements in order and stops at the first that raises.
\<close>

type_synonym stmt = "world \<Rightarrow> error option \<times> world"

fun seq :: "stmt list \<Rightarrow> stmt" where
  "seq [] w = (None, w)"
| "seq (s # ss) w = (case s w of (Some e, w') \<Rightarrow> (Some e, w') | (None, w') \<Rightarrow> seq ss w')"

definition window_getitem :: "library \<Rightarrow> string \<Rightarrow> error + string option" where
  "window_getitem lib key =
     (if key \<in> set layout_keys then Inr (Some key)
      else case on_missing_key lib key of
             KeyRaises \<Rightarrow> Inl (KeyError key)
           | KeyIgnored \<Rightarrow> Inr None
           | KeyGuessed k \<Rightarrow> if k \<in> set layout_keys then Inr (Some k) else Inr None)"

text \<open>\<^verbatim>\<open>window[key].update(...)\<close> with the keyword arguments \<open>attrs\<close>.\<close>

definition element_update :: "library \<Rightarrow> string \<Rightarrow> attr list \<Rightarrow> stmt" where
  "element_update lib key attrs w =
     (case window_getitem lib key of
        Inl e \<Rightarrow> (Some e, w)
      | Inr None \<Rightarrow> (None, w)
      | Inr (Some k) \<Rightarrow>
          (None, w\<lparr>window := (window w)(k := foldl set_attr (window w k) attrs),
                   trace := trace w @ [Update k attrs]\<rparr>))"

definition refresh :: stmt where
  "refresh w = (None, w\<lparr>trace := trace w @ [Refresh]\<rparr>)"

definition sleep :: "nat \<Rightarrow> stmt" where
  "sleep n w = (None, w\<lparr>trace := trace w @ [Sleep n]\<rparr>)"

section \<open>ProgressUpdater\<close>

text \<open>\<^verbatim>\<open>ProgressUpdater.reset()\<close>.\<close>

definition reset :: stmt where
  "reset w = (None, w\<lparr>current_progress := 0, trace := trace w @ [Reset]\<rparr>)"

text \<open>
  \<^verbatim>\<open>ProgressUpdater.__init__\<close>. The window argument is the one window of the program.
  \<^verbatim>\<open>floor(stage_progress / num_files)\<close> divides as floats and then rounds down; for
  the weights of the program (integers from 0 to 100, and any integer below \<open>2 ^ 53\<close> in
  size) the float quotient rounds down to the integer quotient \<open>div\<close>, which is what
  the model computes. Division by 0 raises.
\<close>

definition ProgressUpdater_init ::
  "callable \<Rightarrow> string \<Rightarrow> string \<Rightarrow> int \<Rightarrow> int \<Rightarrow> string \<Rightarrow> bool \<Rightarrow> error + callable" where
  "ProgressUpdater_init f pbar label_k stage_progress num_files lbl each_file =
     (if \<not> each_file then Inr (ProgressUpdater f pbar label_k lbl stage_progress False None)
      else if num_files = 0 then Inl ZeroDivisionError
      else Inr (ProgressUpdater f pbar label_k lbl (stage_progress div num_files) True (Some 1)))"

text \<open>Python's \<^verbatim>\<open>str\<close> of an integer, as the f-string of the label uses it.\<close>

function str_nat :: "nat \<Rightarrow> string" where
  "str_nat n = (if n < 10 then [''0123456789'' ! n] else str_nat (n div 10) @ [''0123456789'' ! (n mod 10)])"
  by pat_completeness auto
termination
  by (relation "measure (\<lambda>n. n)") auto

declare str_nat.simps [simp del]

definition str_int :: "int \<Rightarrow> string" where
  "str_int i = (if i < 0 then ''-'' @ str_nat (nat (- i)) else str_nat (nat i))"

text \<open>
  The branch of \<^verbatim>\<open>__call__\<close> on \<^verbatim>\<open>runs_each_file\<close>: the label to display and the value of
  \<^verbatim>\<open>file_count\<close> afterwards. Reading \<^verbatim>\<open>file_count\<close> on an instance that never assigned it
  raises \<^verbatim>\<open>AttributeError\<close>.
\<close>

definition extended_label :: "string \<Rightarrow> bool \<Rightarrow> int option \<Rightarrow> error + string \<times> int option" where
  "extended_label lbl each_file fc =
     (if each_file then
        (case fc of
           None \<Rightarrow> Inl (AttributeError ''file_count'')
         | Some n \<Rightarrow> Inr (''File #'' @ str_int n @ '': '' @ lbl, Some (n + 1)))
      else Inr (lbl, fc))"

text \<open>
  \<^verbatim>\<open>print(*args, **kwargs)\<close>: the builtin takes the keywords \<^verbatim>\<open>sep\<close>, \<^verbatim>\<open>end\<close>, \<^verbatim>\<open>file\<close> and
  \<^verbatim>\<open>flush\<close> and raises \<^verbatim>\<open>TypeError\<close> for any other. The values given for its own four
  keywords are taken to be acceptable to it, and the positional arguments to be
  printable.
\<close>

definition print_keywords :: "string list" where
  "print_keywords = [''sep'', ''end'', ''file'', ''flush'']"

definition print_builtin :: "pyval list \<Rightarrow> kwargs \<Rightarrow> stmt" where
  "print_builtin args kw w =
     (if list_all (\<lambda>(k, v). k \<in> set print_keywords) kw then (None, w) else (Some TypeError, w))"

definition advance :: "int \<Rightarrow> stmt" where
  "advance inc w = (None, w\<lparr>current_progress := current_progress w + inc\<rparr>)"

text \<open>
  Calling a callable with positional arguments \<open>args\<close> and keyword arguments \<open>kw\<close>.
  \<open>out\<close> is what the plain pipeline function at the bottom does when the call reaches
  it (its result or the exception it raises); the pipeline is not part of this program.
  The result is the outcome of the call, the callable as the call left it, and the
  world. The case of \<open>ProgressUpdater\<close> is \<^verbatim>\<open>ProgressUpdater.__call__\<close>; calling a
  \<^verbatim>\<open>functools.partial\<close> puts its stored argument first.
\<close>

fun call :: "library \<Rightarrow> callable \<Rightarrow> pyval list \<Rightarrow> kwargs \<Rightarrow> error + pyval \<Rightarrow> world
    \<Rightarrow> (error + pyval) \<times> callable \<times> world" where
  "call lib (Function name) args kw out w =
     (out, Function name, w\<lparr>trace := trace w @ [Entered name args kw]\<rparr>)"
| "call lib (Partial c v) args kw out w =
     (case call lib c (v # args) kw out w of (r, c', w') \<Rightarrow> (r, Partial c' v, w'))"
| "call lib (ProgressUpdater f pbar label_k lbl inc each_file fc) args kw out w =
     (case seq [advance inc,
                (\<lambda>w. element_update lib pbar [Current_count (current_progress w)] w)] w of
        (Some e, w1) \<Rightarrow> (Inl e, ProgressUpdater f pbar label_k lbl inc each_file fc, w1)
      | (None, w1) \<Rightarrow>
          (case extended_label lbl each_file fc of
             Inl e \<Rightarrow> (Inl e, ProgressUpdater f pbar label_k lbl inc each_file fc, w1)
           | Inr (ext, fc') \<Rightarrow>
               (case seq [element_update lib label_k [Value ext], refresh,
                          print_builtin args kw] w1 of
                  (Some e, w2) \<Rightarrow> (Inl e, ProgressUpdater f pbar label_k lbl inc each_file fc', w2)
                | (None, w2) \<Rightarrow>
                    (case call lib f args kw out w2 of
                       (r, f', w3) \<Rightarrow>
                         (r, ProgressUpdater f' pbar label_k lbl inc each_file fc', w3)))))"

section \<open>Attribute access and unwrapping\<close>

text \<open>
  Reading an attribute of a class goes through the descriptor protocol: \<open>inst\<close> is the
  instance, or \<open>PyNone\<close> when the attribute is read on the class itself. A plain
  function read on the class is the function; read on an instance it is a bound
  method, which puts the instance first like a partial does. A \<open>ProgressUpdater\<close>
  answers with its \<^verbatim>\<open>__get__\<close>: \<^verbatim>\<open>functools.partial(self.__call__, instance)\<close>. A
  \<^verbatim>\<open>functools.partial\<close> object stored in a class is handed out as it is.
\<close>

fun descr_get :: "callable \<Rightarrow> pyval \<Rightarrow> callable" where
  "descr_get (Function name) inst = (if inst = PyNone then Function name else Partial (Function name) inst)"
| "descr_get (ProgressUpdater f pbar label_k lbl inc each_file fc) inst =
     Partial (ProgressUpdater f pbar label_k lbl inc each_file fc) inst"
| "descr_get (Partial c v) inst = Partial c v"

text \<open>
  \<^verbatim>\<open>inspect.unwrap\<close> follows \<^verbatim>\<open>__wrapped__\<close> while the object has that attribute. A
  \<open>ProgressUpdater\<close> has it (set by \<^verbatim>\<open>update_wrapper\<close> to \<open>func\<close>); a plain function of
  the pipeline and a \<^verbatim>\<open>functools.partial\<close> object do not.
\<close>

fun unwrap :: "callable \<Rightarrow> callable" where
  "unwrap (ProgressUpdater f pbar label_k lbl inc each_file fc) = unwrap f"
| "unwrap (Function name) = Function name"
| "unwrap (Partial c v) = Partial c v"

text \<open>
  \<^verbatim>\<open>inst.attr(*args, **kw)\<close> for the class attribute in slot \<open>s\<close> (for
  \<^verbatim>\<open>__init__\<close>: the construction of an instance): the attribute is read through
  \<open>descr_get\<close> and the result is called. The slot keeps the object it held, as the
  call left it: a \<^verbatim>\<open>functools.partial\<close> object held by the slot itself, or else the
  object behind the bound method or partial that the read made for this one call.
\<close>

definition invoke :: "library \<Rightarrow> slot \<Rightarrow> pyval \<Rightarrow> pyval list \<Rightarrow> kwargs \<Rightarrow> error + pyval \<Rightarrow> world
    \<Rightarrow> (error + pyval) \<times> world" where
  "invoke lib s inst args kw out w =
     (case call lib (descr_get (diffeo w s) inst) args kw out w of
        (r, c', w') \<Rightarrow>
          (r, w'\<lparr>diffeo := (diffeo w')(s :=
                 (case (diffeo w s, c') of
                    (Partial c v, p) \<Rightarrow> p
                  | (_, Partial u v) \<Rightarrow> u
                  | (_, p) \<Rightarrow> p))\<rparr>))"

section \<open>The pipeline\<close>

text \<open>
  The module \<^verbatim>\<open>diffeomorphic\<close> is not among the sources. A run of its entry point is
  given here by a script: the stage calls the run makes, in the order in which they are
  entered, each with its slot, the instance, the positional and keyword arguments and
  what the plain stage function does when reached, and then how the entry point ends
  when no stage call raised (\<open>None\<close>: it returns). The program passes six arguments to
  the entry point, so the script is a function of them.
\<close>

type_synonym stage_call = "slot \<times> pyval \<times> pyval list \<times> kwargs \<times> (error + pyval)"

type_synonym script = "stage_call list \<times> error option"

type_synonym entry_point = "string list \<Rightarrow> string \<Rightarrow> int \<Rightarrow> int \<Rightarrow> bool \<Rightarrow> bool \<Rightarrow> script"

text \<open>
  Modelled from the spec: the body of \<^verbatim>\<open>diffeomorphic.run_diffeomorph\<close> is missing. The
  spec says that the entry point invokes the stage slots and fails with the missing-file
  error class; it says nothing of the entry point catching what a stage raises, so a
  stage call that raises ends the run with that exception.
\<close>

fun run_stages :: "library \<Rightarrow> stage_call list \<Rightarrow> stmt" where
  "run_stages lib [] w = (None, w)"
| "run_stages lib ((s, inst, args, kw, out) # cs) w =
     (case invoke lib s inst args kw out w of
        (Inl e, w') \<Rightarrow> (Some e, w')
      | (Inr r, w') \<Rightarrow> run_stages lib cs w')"

text \<open>
  Modelled from the spec: \<^verbatim>\<open>diffeomorphic.run_diffeomorph\<close>, missing from the sources, as
  the run of a script: the entry is recorded, the stage calls are made, and the entry
  point ends as the script says.
\<close>

definition run_diffeomorph :: "library \<Rightarrow> script \<Rightarrow> stmt" where
  "run_diffeomorph lib sc w =
     (case run_stages lib (fst sc) (w\<lparr>trace := trace w @ [RunDiffeomorph]\<rparr>) of
        (Some e, w') \<Rightarrow> (Some e, w')
      | (None, w') \<Rightarrow> (snd sc, w'))"

section \<open>The handler of the Run button\<close>

text \<open>The values that \<^verbatim>\<open>window.read()\<close> hands to the handler.\<close>

record field_values =
  INPUTS :: string
  OUTPUT :: string
  MAXDISTORTION :: string
  NSTEPS :: string
  SAVE_STEPS :: bool
  NO_UPSCALING :: bool

text \<open>\<^verbatim>\<open>s.split(c)\<close> for a separator of one character.\<close>

fun split_on :: "char \<Rightarrow> string \<Rightarrow> string list" where
  "split_on c [] = [[]]"
| "split_on c (x # xs) =
     (if x = c then [] # split_on c xs
      else (case split_on c xs of
              [] \<Rightarrow> [[x]]
            | y # ys \<Rightarrow> (x # y) # ys))"

text \<open>
  The check that files and a folder are supplied: the message of the branch that
  rejects the request, or \<open>None\<close> when the request goes on.
\<close>

definition rejection :: "field_values \<Rightarrow> string option" where
  "rejection v =
     (if INPUTS v = [] \<and> OUTPUT v = [] then
        Some ''ERROR: One or more files/folders must be supplied as an input; exactly one folder must be supplied as an output''
      else if INPUTS v = [] then
        Some ''ERROR: One or more files/folders must be supplied as an input''
      else if OUTPUT v = [] then
        Some ''ERROR: Exactly one folder must be supplied as an output''
      else None)"

text \<open>
  One of the four assignments \<^verbatim>\<open>slot = ProgressUpdater(slot, "-PBAR-", "-PBARLABEL-", window, ...)\<close>.
\<close>

definition wrap :: "slot \<Rightarrow> int \<Rightarrow> int \<Rightarrow> string \<Rightarrow> bool \<Rightarrow> stmt" where
  "wrap s stage_progress num_files lbl each_file w =
     (case ProgressUpdater_init (descr_get (diffeo w s) PyNone) ''-PBAR-'' ''-PBARLABEL-''
             stage_progress num_files lbl each_file of
        Inl e \<Rightarrow> (Some e, w)
      | Inr u \<Rightarrow> (None, w\<lparr>diffeo := (diffeo w)(s := u)\<rparr>))"

definition install :: "int \<Rightarrow> stmt" where
  "install num_files =
     seq [wrap DiffeoImage_init 5 num_files ''Initializing image...'' True,
          wrap DiffeoImage_getdiffeo 25 num_files ''Generating diffeomorphic flow field...'' True,
          wrap DiffeoImage_interpolate_image 65 num_files
            ''Interpolating image (this may take a while; do not close window!)...'' True,
          wrap DiffeoImageDir_save 5 num_files ''Saving files (do not close window!)...'' False]"

text \<open>One of the four assignments \<^verbatim>\<open>target = unwrap(source)\<close> of the cleanup.\<close>

definition unwrap_into :: "slot \<Rightarrow> slot \<Rightarrow> stmt" where
  "unwrap_into target source w =
     (None, w\<lparr>diffeo := (diffeo w)(target := unwrap (descr_get (diffeo w source) PyNone))\<rparr>)"

definition uninstall :: stmt where
  "uninstall =
     seq [unwrap_into DiffeoImage_init DiffeoImageDir_init,
          unwrap_into DiffeoImage_getdiffeo DiffeoImage_getdiffeo,
          unwrap_into DiffeoImage_interpolate_image DiffeoImage_interpolate_image,
          unwrap_into DiffeoImageDir_save DiffeoImageDir_save]"

text \<open>The \<^verbatim>\<open>try\<close> statement up to its \<^verbatim>\<open>finally\<close> clause: the call, \<^verbatim>\<open>except\<close> and \<^verbatim>\<open>else\<close>.\<close>

definition except_FileNotFoundError :: "library \<Rightarrow> stmt" where
  "except_FileNotFoundError lib =
     seq [element_update lib ''-INPUTS-'' [Value ''''],
          element_update lib ''-OUTPUTS-'' [Value ''''],
          element_update lib ''-ERROR-'' [Value ''ERROR: One or more files not found'']]"

definition else_block :: "library \<Rightarrow> stmt" where
  "else_block lib =
     seq [element_update lib ''-PBAR-'' [Current_count 100],
          element_update lib ''-PBARLABEL-'' [Value ''Diffeomorphing complete!''],
          refresh,
          sleep 2]"

definition try_except_else :: "library \<Rightarrow> script \<Rightarrow> stmt" where
  "try_except_else lib sc w =
     (case run_diffeomorph lib sc w of
        (Some e, w1) \<Rightarrow>
          if e = FileNotFoundError then except_FileNotFoundError lib w1 else (Some e, w1)
      | (None, w1) \<Rightarrow> else_block lib w1)"

definition finally_block :: "library \<Rightarrow> stmt" where
  "finally_block lib =
     seq [element_update lib ''-PBAR-'' [Current_count 0, Visible False],
          element_update lib ''-PBARLABEL-'' [Value '''', Visible False],
          uninstall,
          reset]"

text \<open>
  The whole \<^verbatim>\<open>try\<close> statement: the \<^verbatim>\<open>finally\<close> clause runs on every way out, and the
  exception that was pending goes on afterwards unless the clause raised one itself.
\<close>

definition try_statement :: "library \<Rightarrow> script \<Rightarrow> stmt" where
  "try_statement lib sc w =
     (case try_except_else lib sc w of
        (exc, w1) \<Rightarrow>
          (case finally_block lib w1 of
             (Some e, w2) \<Rightarrow> (Some e, w2)
           | (None, w2) \<Rightarrow> (exc, w2)))"

text \<open>
  The three updates after the check of the fields: the error text is cleared and the
  progress bar and its label are shown.
\<close>

definition prepare :: "library \<Rightarrow> stmt" where
  "prepare lib =
     seq [element_update lib ''-ERROR-'' [Value ''''],
          element_update lib ''-PBAR-'' [Current_count 0, Visible True],
          element_update lib ''-PBARLABEL-'' [Visible True]]"

text \<open>
  The body of \<^verbatim>\<open>if event == "Run"\<close>. The exception in the result is the one that leaves
  the handler, and with it the event loop.
\<close>

definition run_handler :: "library \<Rightarrow> entry_point \<Rightarrow> field_values \<Rightarrow> stmt" where
  "run_handler lib ep v w =
     (case rejection v of
        Some msg \<Rightarrow> element_update lib ''-ERROR-'' [Value msg, Text_color ''red''] w
      | None \<Rightarrow>
          (case prepare lib w of
             (Some e, w1) \<Rightarrow> (Some e, w1)
           | (None, w1) \<Rightarrow>
               (let inputs = split_on CHR '';'' (INPUTS v); output_dir = OUTPUT v in
                case py_int lib (MAXDISTORTION v) of
                  Inl e \<Rightarrow> (Some e, w1)
                | Inr maxdistortion \<Rightarrow>
                    (case py_int lib (NSTEPS v) of
                       Inl e \<Rightarrow> (Some e, w1)
                     | Inr nsteps \<Rightarrow>
                         (let save_steps = SAVE_STEPS v;
                              upscale = (\<not> NO_UPSCALING v);
                              num_files = int (length inputs) in
                          case install num_files w1 of
                            (Some e, w2) \<Rightarrow> (Some e, w2)
                          | (None, w2) \<Rightarrow>
                              try_statement lib
                                (ep inputs output_dir maxdistortion nsteps save_steps upscale) w2)))))"

section \<open>Concrete instances\<close>

text \<open>
  The state in which the program starts: the stage slots hold the plain functions of
  the pipeline, the elements are as the layout declares them, the progress is 0.
\<close>

fun original :: "slot \<Rightarrow> callable" where
  "original DiffeoImage_init = Function ''DiffeoImage.__init__''"
| "original DiffeoImage_getdiffeo = Function ''DiffeoImage._getdiffeo''"
| "original DiffeoImage_interpolate_image = Function ''DiffeoImage._interpolate_image''"
| "original DiffeoImageDir_save = Function ''DiffeoImageDir.save''"
| "original DiffeoImageDir_init = Function ''DiffeoImageDir.__init__''"

definition window0 :: "string \<Rightarrow> element" where
  "window0 k =
     \<lparr>shown_value = (if k = ''-MAXDISTORTION-'' then ''80'' else if k = ''-NSTEPS-'' then ''20'' else ''''),
      visible = (k \<noteq> ''-PBARLABEL-'' \<and> k \<noteq> ''-PBAR-''),
      current_count = 0,
      text_color = ''''\<rparr>"

definition world0 :: world where
  "world0 = \<lparr>window = window0, current_progress = 0, diffeo = original, trace = []\<rparr>"

text \<open>
  An instance of the library: \<^verbatim>\<open>int\<close> on a string of decimal digits, and one answer to
  every key that the layout does not declare.
\<close>

fun digits_value :: "nat \<Rightarrow> string \<Rightarrow> nat option" where
  "digits_value acc [] = Some acc"
| "digits_value acc (c # cs) =
     (let d = (of_char c :: nat) in
      if 48 \<le> d \<and> d \<le> 57 then digits_value (10 * acc + (d - 48)) cs else None)"

definition int_of_digits :: "string \<Rightarrow> error + int" where
  "int_of_digits s =
     (if s = [] then Inl ValueError
      else case digits_value 0 s of None \<Rightarrow> Inl ValueError | Some n \<Rightarrow> Inr (int n))"

definition library_with :: "missing_key \<Rightarrow> library" where
  "library_with mk = \<lparr>on_missing_key = (\<lambda>k. mk), py_int = int_of_digits\<rparr>"

text \<open>
  Modelled from the spec: the stage calls of \<^verbatim>\<open>diffeomorphic\<close>, missing from the sources,
  for one input item: the three per-item stages, each returning normally.
\<close>

definition item_stages :: "string \<Rightarrow> stage_call list" where
  "item_stages file =
     [(DiffeoImage_init, PyObj file, [], [], Inr PyNone),
      (DiffeoImage_getdiffeo, PyObj file, [], [], Inr PyNone),
      (DiffeoImage_interpolate_image, PyObj file, [], [], Inr PyNone)]"

text \<open>
  Modelled from the spec: an entry point of \<^verbatim>\<open>diffeomorphic\<close>, missing from the sources,
  that enters the three per-item stages once for each input and the batch stage once
  and returns, as the spec describes a successful run.
\<close>

definition pipeline_ok :: entry_point where
  "pipeline_ok inputs output_dir maxdistortion nsteps save_steps upscale =
     (concat (map item_stages inputs) @ [(DiffeoImageDir_save, PyObj output_dir, [], [], Inr PyNone)],
      None)"

text \<open>
  Modelled from the spec: an entry point of \<^verbatim>\<open>diffeomorphic\<close>, missing from the sources,
  whose first input does not exist: the first stage of the first item raises the
  missing-file error, after the progress that its instrumentor reported.
\<close>

definition pipeline_missing_file :: entry_point where
  "pipeline_missing_file inputs output_dir maxdistortion nsteps save_steps upscale =
     (case inputs of
        [] \<Rightarrow> ([], Some FileNotFoundError)
      | file # rest \<Rightarrow> ([(DiffeoImage_init, PyObj file, [], [], Inl FileNotFoundError)], None))"

definition two_files :: field_values where
  "two_files = \<lparr>INPUTS = ''a.png;b.png'', OUTPUT = ''out'', MAXDISTORTION = ''80'',
     NSTEPS = ''20'', SAVE_STEPS = False, NO_UPSCALING = False\<rparr>"

section \<open>Successive invocations and displayed labels\<close>

text \<open>
  The invocations of one callable, one after the other, whatever each of them returns
  or raises: each element gives the arguments of an invocation and what the plain
  function at the bottom does in it.
\<close>

fun invocations :: "library \<Rightarrow> callable \<Rightarrow> (pyval list \<times> kwargs \<times> (error + pyval)) list \<Rightarrow> world
    \<Rightarrow> callable \<times> world" where
  "invocations lib c [] w = (c, w)"
| "invocations lib c ((args, kw, out) # rest) w =
     (case call lib c args kw out w of (r, c', w') \<Rightarrow> invocations lib c' rest w')"

text \<open>The texts that the trace shows on the element \<open>key\<close>, in order.\<close>

fun attr_values :: "attr list \<Rightarrow> string list" where
  "attr_values [] = []"
| "attr_values (Value s # as) = s # attr_values as"
| "attr_values (a # as) = attr_values as"

fun shown_on :: "string \<Rightarrow> event list \<Rightarrow> string list" where
  "shown_on key [] = []"
| "shown_on key (Update k attrs # tr) = (if k = key then attr_values attrs else []) @ shown_on key tr"
| "shown_on key (ev # tr) = shown_on key tr"

text \<open>
  Every \<open>ProgressUpdater\<close> inside a callable that reads \<^verbatim>\<open>file_count\<close> has it assigned.
\<close>

fun file_count_assigned :: "callable \<Rightarrow> bool" where
  "file_count_assigned (Function name) = True"
| "file_count_assigned (Partial c v) = file_count_assigned c"
| "file_count_assigned (ProgressUpdater f pbar label_k lbl inc each_file fc) =
     ((each_file \<longrightarrow> fc \<noteq> None) \<and> file_count_assigned f)"

text \<open>Requests with an empty input field, and the fields of a run with one file.\<close>

definition no_inputs :: field_values where
  "no_inputs = \<lparr>INPUTS = '''', OUTPUT = ''out'', MAXDISTORTION = ''80'',
     NSTEPS = ''20'', SAVE_STEPS = False, NO_UPSCALING = False\<rparr>"

definition one_file :: field_values where
  "one_file = \<lparr>INPUTS = ''a.png'', OUTPUT = ''out'', MAXDISTORTION = ''80'',
     NSTEPS = ''20'', SAVE_STEPS = False, NO_UPSCALING = False\<rparr>"

text \<open>
  The state in which the fields \<open>v\<close> have been filled in and \<^verbatim>\<open>Run\<close> is pressed for the
  first time, the state in which the handler then enters its \<^verbatim>\<open>try\<close> statement, and the
  pipeline run that \<open>pipeline_ok\<close> makes of the two files.
\<close>

definition world_with_fields :: "field_values \<Rightarrow> world" where
  "world_with_fields v =
     world0\<lparr>window := window0
       (''-INPUTS-'' := (window0 ''-INPUTS-'')\<lparr>shown_value := INPUTS v\<rparr>,
        ''-OUTPUT-'' := (window0 ''-OUTPUT-'')\<lparr>shown_value := OUTPUT v\<rparr>)\<rparr>"

definition at_try :: "library \<Rightarrow> field_values \<Rightarrow> world" where
  "at_try lib v =
     snd (install (int (length (split_on CHR '';'' (INPUTS v)))) (snd (prepare lib (world_with_fields v))))"

definition two_files_script :: script where
  "two_files_script = pipeline_ok [''a.png'', ''b.png''] ''out'' 80 20 False True"




section \<open>Properties\<close>

subsection \<open>Auxiliary facts\<close>

lemma shown_on_append: "shown_on key (xs @ ys) = shown_on key xs @ shown_on key ys"
  by (induction key xs rule: shown_on.induct) auto

lemma element_update_layout:
  "key \<in> set layout_keys \<Longrightarrow>
   element_update lib key attrs w =
     (None, w\<lparr>window := (window w)(key := foldl set_attr (window w key) attrs),
              trace := trace w @ [Update key attrs]\<rparr>)"
  by (simp add: element_update_def window_getitem_def)

lemma element_update_progress:
  "element_update lib key attrs w = (e, w') \<Longrightarrow> current_progress w' = current_progress w"
  by (auto simp: element_update_def split: sum.splits option.splits)

subsection \<open>Increments and accumulation\<close>

lemma call_plain_updater:
  assumes "call lib (ProgressUpdater (Function name) pbar label_k lbl inc each_file fc) args kw out w = (r, c', w')"
  shows "(\<exists>fc'. c' = ProgressUpdater (Function name) pbar label_k lbl inc each_file fc')
         \<and> current_progress w' = current_progress w + inc"
  using assms
  by (auto simp: advance_def refresh_def print_builtin_def element_update_def extended_label_def
           split: sum.splits option.splits prod.splits if_splits)

lemma invocations_plain_updater:
  "invocations lib (ProgressUpdater (Function name) pbar label_k lbl inc each_file fc) calls w = (c', w')
   \<Longrightarrow> current_progress w' = current_progress w + inc * int (length calls)"
proof (induction calls arbitrary: fc w)
  case Nil
  then show ?case by simp
next
  case (Cons a calls)
  obtain args kw out where a: "a = (args, kw, out)" by (cases a)
  obtain r c1 w1 where c: "call lib (ProgressUpdater (Function name) pbar label_k lbl inc each_file fc) args kw out w = (r, c1, w1)"
    by (cases "call lib (ProgressUpdater (Function name) pbar label_k lbl inc each_file fc) args kw out w")
  from call_plain_updater [OF c] obtain fc' where
    c1: "c1 = ProgressUpdater (Function name) pbar label_k lbl inc each_file fc'"
    and p1: "current_progress w1 = current_progress w + inc" by blast
  from Cons.prems a c c1 have "invocations lib (ProgressUpdater (Function name) pbar label_k lbl inc each_file fc') calls w1 = (c', w')"
    by simp
  from Cons.IH [OF this] p1 show ?case by (simp add: algebra_simps)
qed

text \<open>
  Increments in a first run, where every instrumentor is built over a plain stage
  function. Given \<open>N \<ge> 1\<close> input items and a weight of the stage table (0 to 100), a
  per-item instrumentor over a plain stage function is built with increment
  \<open>weight div N\<close> (the floor of weight / N) and every invocation advances the
  accumulator by exactly that; a per-batch instrumentor is built with increment
  \<open>weight'\<close> and every invocation advances the accumulator by exactly \<open>weight'\<close>,
  whatever the number \<open>M\<close> of files is.
\<close>

theorem increment_resolution:
  assumes "1 \<le> N" and "0 \<le> weight" and "weight \<le> 100"
  shows "(\<exists>u. ProgressUpdater_init (Function name) pbar label_k weight N lbl True = Inr u
            \<and> increment_value u = weight div N
            \<and> current_progress (snd (snd (call lib u args kw out w))) = current_progress w + weight div N)
       \<and> (\<exists>u. ProgressUpdater_init (Function name) pbar label_k weight' M lbl False = Inr u
            \<and> increment_value u = weight'
            \<and> current_progress (snd (snd (call lib u args kw out w))) = current_progress w + weight')"
proof -
  have step: "current_progress (snd (snd (call lib (ProgressUpdater (Function name) pbar label_k lbl inc each_file fc) args kw out w)))
      = current_progress w + inc" for inc each_file fc
    using call_plain_updater [of lib name pbar label_k lbl inc each_file fc args kw out w]
    by (cases "call lib (ProgressUpdater (Function name) pbar label_k lbl inc each_file fc) args kw out w") simp
  from assms(1) have "N \<noteq> 0" by simp
  then show ?thesis by (simp add: ProgressUpdater_init_def step del: call.simps)
qed

theorem increment_resolution_witness:
  "(1::int) \<le> 2 \<and> (0::int) \<le> 25 \<and> (25::int) \<le> 100
   \<and> (\<exists>u. ProgressUpdater_init (Function ''DiffeoImage._getdiffeo'') ''-PBAR-'' ''-PBARLABEL-'' 25 2 ''Generating'' True = Inr u
         \<and> increment_value u = 12
         \<and> current_progress (snd (snd (call (library_with KeyIgnored) u [PyObj ''a.png''] [] (Inr PyNone) world0))) = 12)
   \<and> (\<exists>u. ProgressUpdater_init (Function ''DiffeoImage._getdiffeo'') ''-PBAR-'' ''-PBARLABEL-'' 5 2 ''Generating'' False = Inr u
         \<and> increment_value u = 5
         \<and> current_progress (snd (snd (call (library_with KeyIgnored) u [PyObj ''a.png''] [] (Inr PyNone) world0))) = 5)"
  using increment_resolution [of 2 25 "''DiffeoImage._getdiffeo''" "''-PBAR-''" "''-PBARLABEL-''" "''Generating''"
      "library_with KeyIgnored" "[PyObj ''a.png'']" "[]" "Inr PyNone" world0 5 2]
  by (simp add: world0_def)

text \<open>
  Accumulation in a first run. For every weight from 0 to 100 and every \<open>N \<ge> 1\<close>, a
  per-item instrumentor over a plain stage function that is invoked once per item (\<open>N\<close> invocations) adds \<open>(weight div N) * N\<close> to the
  accumulator in total; the total is at most the weight, and it is the weight exactly
  when \<open>N\<close> divides the weight.
\<close>

theorem bounded_accumulation:
  assumes "0 \<le> weight" and "weight \<le> 100" and "1 \<le> N" and "int (length calls) = N"
  shows "\<exists>u. ProgressUpdater_init (Function name) pbar label_k weight N lbl True = Inr u
           \<and> current_progress (snd (invocations lib u calls w)) = current_progress w + (weight div N) * N
           \<and> (weight div N) * N \<le> weight
           \<and> ((weight div N) * N = weight \<longleftrightarrow> N dvd weight)"
proof -
  from assms(3) have N: "N \<noteq> 0" "0 < N" by simp_all
  let ?u = "ProgressUpdater (Function name) pbar label_k lbl (weight div N) True (Some 1)"
  have init: "ProgressUpdater_init (Function name) pbar label_k weight N lbl True = Inr ?u"
    using N by (simp add: ProgressUpdater_init_def)
  have total: "current_progress (snd (invocations lib ?u calls w)) = current_progress w + (weight div N) * N"
    using invocations_plain_updater [of lib name pbar label_k lbl "weight div N" True "Some 1" calls w] assms(4)
    by (cases "invocations lib ?u calls w") simp
  have le: "(weight div N) * N \<le> weight"
  proof -
    have "weight = (weight div N) * N + weight mod N" by simp
    moreover have "0 \<le> weight mod N" using N(2) by simp
    ultimately show ?thesis by linarith
  qed
  have iff: "((weight div N) * N = weight) = (N dvd weight)"
    by (metis dvd_div_mult_self dvd_triv_right)
  from init total le iff show ?thesis by blast
qed

theorem bounded_accumulation_witness:
  "(0::int) \<le> 25 \<and> (25::int) \<le> 100 \<and> (1::int) \<le> 2
   \<and> int (length [([PyObj ''a.png''], [], Inr PyNone), ([PyObj ''b.png''], [], Inr PyNone)]) = 2
   \<and> (\<exists>u. ProgressUpdater_init (Function ''DiffeoImage._getdiffeo'') ''-PBAR-'' ''-PBARLABEL-'' 25 2 ''Generating'' True = Inr u
         \<and> current_progress (snd (invocations (library_with KeyIgnored) u
               [([PyObj ''a.png''], [], Inr PyNone), ([PyObj ''b.png''], [], Inr PyNone)] world0)) = 24
         \<and> (24::int) \<le> 25 \<and> \<not> (2::int) dvd 25)"
  using bounded_accumulation [of 25 2 "[([PyObj ''a.png''], [], Inr PyNone), ([PyObj ''b.png''], [], Inr PyNone)]"
      "''DiffeoImage._getdiffeo''" "''-PBAR-''" "''-PBARLABEL-''" "''Generating''" "library_with KeyIgnored" world0]
  by (simp add: world0_def)

subsection \<open>Labels and ordinals\<close>

lemma call_per_item_label:
  assumes "pbar \<in> set layout_keys" and "label_k \<in> set layout_keys"
    and "call lib (ProgressUpdater (Function name) pbar label_k lbl inc True (Some n)) args kw out w = (r, c', w')"
  shows "c' = ProgressUpdater (Function name) pbar label_k lbl inc True (Some (n + 1))
         \<and> shown_on label_k (trace w') = shown_on label_k (trace w) @ [''File #'' @ str_int n @ '': '' @ lbl]"
  using assms
  by (auto simp: advance_def refresh_def print_builtin_def element_update_layout extended_label_def
        shown_on_append split: if_splits)

lemma call_per_batch_label:
  assumes "pbar \<in> set layout_keys" and "label_k \<in> set layout_keys"
    and "call lib (ProgressUpdater (Function name) pbar label_k lbl inc False fc) args kw out w = (r, c', w')"
  shows "c' = ProgressUpdater (Function name) pbar label_k lbl inc False fc
         \<and> shown_on label_k (trace w') = shown_on label_k (trace w) @ [lbl]"
  using assms
  by (auto simp: advance_def refresh_def print_builtin_def element_update_layout extended_label_def
        shown_on_append split: if_splits)

lemma invocations_per_item_labels:
  assumes "pbar \<in> set layout_keys" and "label_k \<in> set layout_keys"
  shows "invocations lib (ProgressUpdater (Function name) pbar label_k lbl inc True (Some n)) calls w = (c', w')
   \<Longrightarrow> shown_on label_k (trace w') =
         shown_on label_k (trace w) @ map (\<lambda>j. ''File #'' @ str_int (n + int j) @ '': '' @ lbl) [0..<length calls]"
proof (induction calls arbitrary: n w)
  case Nil
  then show ?case by simp
next
  case (Cons a calls)
  let ?u = "\<lambda>m. ProgressUpdater (Function name) pbar label_k lbl inc True (Some m)"
  obtain args kw out where a: "a = (args, kw, out)" by (cases a)
  obtain r c1 w1 where c: "call lib (?u n) args kw out w = (r, c1, w1)"
    by (cases "call lib (?u n) args kw out w")
  from call_per_item_label [OF assms c] have c1: "c1 = ?u (n + 1)"
    and t1: "shown_on label_k (trace w1) = shown_on label_k (trace w) @ [''File #'' @ str_int n @ '': '' @ lbl]"
    by blast+
  from Cons.prems a c c1 have "invocations lib (?u (n + 1)) calls w1 = (c', w')"
    by (simp del: call.simps)
  from Cons.IH [OF this] have
    "shown_on label_k (trace w') = shown_on label_k (trace w1)
       @ map (\<lambda>j. ''File #'' @ str_int (n + 1 + int j) @ '': '' @ lbl) [0..<length calls]" .
  moreover have "[0..<length (a # calls)] = 0 # map Suc [0..<length calls]"
    by (simp add: upt_conv_Cons map_Suc_upt del: upt_Suc)
  ultimately show ?case using t1 by (simp add: o_def add.assoc del: upt_Suc)
qed

lemma invocations_per_batch_labels:
  assumes "pbar \<in> set layout_keys" and "label_k \<in> set layout_keys"
  shows "invocations lib (ProgressUpdater (Function name) pbar label_k lbl inc False fc) calls w = (c', w')
   \<Longrightarrow> shown_on label_k (trace w') = shown_on label_k (trace w) @ replicate (length calls) lbl"
proof (induction calls arbitrary: w)
  case Nil
  then show ?case by simp
next
  case (Cons a calls)
  let ?u = "ProgressUpdater (Function name) pbar label_k lbl inc False fc"
  obtain args kw out where a: "a = (args, kw, out)" by (cases a)
  obtain r c1 w1 where c: "call lib ?u args kw out w = (r, c1, w1)"
    by (cases "call lib ?u args kw out w")
  from call_per_batch_label [OF assms c] have c1: "c1 = ?u"
    and t1: "shown_on label_k (trace w1) = shown_on label_k (trace w) @ [lbl]"
    by blast+
  from Cons.prems a c c1 have "invocations lib ?u calls w1 = (c', w')"
    by (simp del: call.simps)
  from Cons.IH [OF this] t1 show ?case by (simp add: replicate_append_same)
qed

lemma install_fresh:
  assumes "N \<noteq> 0"
  shows "\<exists>w'. install N w = (None, w')
           \<and> trace w' = trace w \<and> current_progress w' = current_progress w \<and> window w' = window w
           \<and> diffeo w' DiffeoImageDir_init = diffeo w DiffeoImageDir_init
           \<and> diffeo w' DiffeoImage_init = ProgressUpdater (descr_get (diffeo w DiffeoImage_init) PyNone)
               ''-PBAR-'' ''-PBARLABEL-'' ''Initializing image...'' (5 div N) True (Some 1)
           \<and> diffeo w' DiffeoImage_getdiffeo = ProgressUpdater (descr_get (diffeo w DiffeoImage_getdiffeo) PyNone)
               ''-PBAR-'' ''-PBARLABEL-'' ''Generating diffeomorphic flow field...'' (25 div N) True (Some 1)
           \<and> diffeo w' DiffeoImage_interpolate_image =
               ProgressUpdater (descr_get (diffeo w DiffeoImage_interpolate_image) PyNone)
               ''-PBAR-'' ''-PBARLABEL-''
               ''Interpolating image (this may take a while; do not close window!)...'' (65 div N) True (Some 1)
           \<and> diffeo w' DiffeoImageDir_save = ProgressUpdater (descr_get (diffeo w DiffeoImageDir_save) PyNone)
               ''-PBAR-'' ''-PBARLABEL-'' ''Saving files (do not close window!)...'' 5 False None"
  using assms by (simp add: install_def wrap_def ProgressUpdater_init_def)

text \<open>
  Labels in a first run. A per-item instrumentor (built by \<^verbatim>\<open>__init__\<close> over a plain
  stage function, its counter at 1) that is invoked \<open>k\<close> times shows on the label element exactly the
  labels \<^verbatim>\<open>File #1: label\<close>, ..., \<^verbatim>\<open>File #k: label\<close>, in this order; a per-batch
  instrumentor shows its label verbatim at each invocation; and the installation of a
  run, in whatever state the previous run left, puts fresh instrumentors with the
  counter at 1 into the three per-item slots. What such an instrumentor wraps from
  the second run on is another matter (see the second run below).
\<close>

theorem label_ordinals:
  assumes "pbar \<in> set layout_keys" and "label_k \<in> set layout_keys" and "N \<noteq> 0"
  shows "(\<exists>u. ProgressUpdater_init (Function name) pbar label_k weight N lbl True = Inr u
            \<and> file_count u = Some 1
            \<and> shown_on label_k (trace (snd (invocations lib u calls w))) =
                shown_on label_k (trace w)
                  @ map (\<lambda>i. ''File #'' @ str_int (int i) @ '': '' @ lbl) [1..<Suc (length calls)])
       \<and> (\<exists>u. ProgressUpdater_init (Function name) pbar label_k weight N lbl False = Inr u
            \<and> shown_on label_k (trace (snd (invocations lib u calls w))) =
                shown_on label_k (trace w) @ replicate (length calls) lbl)
       \<and> (\<exists>w'. install N w = (None, w')
            \<and> file_count (diffeo w' DiffeoImage_init) = Some 1
            \<and> file_count (diffeo w' DiffeoImage_getdiffeo) = Some 1
            \<and> file_count (diffeo w' DiffeoImage_interpolate_image) = Some 1)"
proof -
  let ?item = "ProgressUpdater (Function name) pbar label_k lbl (weight div N) True (Some 1)"
  let ?batch = "ProgressUpdater (Function name) pbar label_k lbl weight False None"
  have "shown_on label_k (trace (snd (invocations lib ?item calls w))) =
          shown_on label_k (trace w) @ map (\<lambda>j. ''File #'' @ str_int (1 + int j) @ '': '' @ lbl) [0..<length calls]"
    using invocations_per_item_labels [OF assms(1,2), of lib name lbl "weight div N" 1 calls w]
    by (cases "invocations lib ?item calls w") (simp del: upt_Suc)
  moreover have "map (\<lambda>j. ''File #'' @ str_int (1 + int j) @ '': '' @ lbl) [0..<length calls]
       = map (\<lambda>i. ''File #'' @ str_int (int i) @ '': '' @ lbl) [1..<Suc (length calls)]"
  proof -
    have "[1..<Suc (length calls)] = map Suc [0..<length calls]"
      by (simp add: map_Suc_upt del: upt_Suc)
    then show ?thesis by (simp add: o_def add.commute del: upt_Suc)
  qed
  ultimately have item: "shown_on label_k (trace (snd (invocations lib ?item calls w))) =
          shown_on label_k (trace w) @ map (\<lambda>i. ''File #'' @ str_int (int i) @ '': '' @ lbl) [1..<Suc (length calls)]"
    by simp
  have batch: "shown_on label_k (trace (snd (invocations lib ?batch calls w))) =
          shown_on label_k (trace w) @ replicate (length calls) lbl"
    using invocations_per_batch_labels [OF assms(1,2), of lib name lbl weight None calls w]
    by (cases "invocations lib ?batch calls w") simp
  from install_fresh [OF assms(3), of w] obtain w' where
    "install N w = (None, w')" "file_count (diffeo w' DiffeoImage_init) = Some 1"
    "file_count (diffeo w' DiffeoImage_getdiffeo) = Some 1"
    "file_count (diffeo w' DiffeoImage_interpolate_image) = Some 1"
    by auto
  with item batch assms(3) show ?thesis
    by (simp add: ProgressUpdater_init_def del: upt_Suc)
qed

theorem label_ordinals_witness:
  "''-PBAR-'' \<in> set layout_keys \<and> ''-PBARLABEL-'' \<in> set layout_keys \<and> (2::int) \<noteq> 0
   \<and> (\<exists>u. ProgressUpdater_init (Function ''DiffeoImage._getdiffeo'') ''-PBAR-'' ''-PBARLABEL-'' 25 2 ''Generating'' True = Inr u
         \<and> file_count u = Some 1
         \<and> shown_on ''-PBARLABEL-'' (trace (snd (invocations (library_with KeyIgnored) u
               [([PyObj ''a.png''], [], Inr PyNone), ([PyObj ''b.png''], [], Inl FileNotFoundError)] world0)))
             = [''File #1: Generating'', ''File #2: Generating''])
   \<and> (\<exists>u. ProgressUpdater_init (Function ''DiffeoImage._getdiffeo'') ''-PBAR-'' ''-PBARLABEL-'' 25 2 ''Generating'' False = Inr u
         \<and> shown_on ''-PBARLABEL-'' (trace (snd (invocations (library_with KeyIgnored) u
               [([PyObj ''a.png''], [], Inr PyNone), ([PyObj ''b.png''], [], Inl FileNotFoundError)] world0)))
             = [''Generating'', ''Generating''])
   \<and> (\<exists>w'. install 2 world0 = (None, w')
         \<and> file_count (diffeo w' DiffeoImage_init) = Some 1
         \<and> file_count (diffeo w' DiffeoImage_getdiffeo) = Some 1
         \<and> file_count (diffeo w' DiffeoImage_interpolate_image) = Some 1)"
  using label_ordinals [of "''-PBAR-''" "''-PBARLABEL-''" 2 "''DiffeoImage._getdiffeo''" 25 "''Generating''"
      "library_with KeyIgnored"
      "[([PyObj ''a.png''], [], Inr PyNone), ([PyObj ''b.png''], [], Inl FileNotFoundError)]" world0]
  by (simp add: layout_keys_def world0_def str_int_def str_nat.simps)

subsection \<open>The attribute file_count\<close>

lemma call_updater_cases:
  assumes "call lib (ProgressUpdater f pbar label_k lbl inc each_file fc) args kw out w = (r, c', w')"
  shows "(\<exists>e. seq [advance inc, (\<lambda>w. element_update lib pbar [Current_count (current_progress w)] w)] w = (Some e, w')
            \<and> r = Inl e \<and> c' = ProgressUpdater f pbar label_k lbl inc each_file fc)
       \<or> (\<exists>e. seq [advance inc, (\<lambda>w. element_update lib pbar [Current_count (current_progress w)] w)] w = (None, w')
            \<and> extended_label lbl each_file fc = Inl e
            \<and> r = Inl e \<and> c' = ProgressUpdater f pbar label_k lbl inc each_file fc)
       \<or> (\<exists>w1 ext fc' e.
              seq [advance inc, (\<lambda>w. element_update lib pbar [Current_count (current_progress w)] w)] w = (None, w1)
            \<and> extended_label lbl each_file fc = Inr (ext, fc')
            \<and> seq [element_update lib label_k [Value ext], refresh, print_builtin args kw] w1 = (Some e, w')
            \<and> r = Inl e \<and> c' = ProgressUpdater f pbar label_k lbl inc each_file fc')
       \<or> (\<exists>w1 ext fc' w2 f'.
              seq [advance inc, (\<lambda>w. element_update lib pbar [Current_count (current_progress w)] w)] w = (None, w1)
            \<and> extended_label lbl each_file fc = Inr (ext, fc')
            \<and> seq [element_update lib label_k [Value ext], refresh, print_builtin args kw] w1 = (None, w2)
            \<and> call lib f args kw out w2 = (r, f', w')
            \<and> c' = ProgressUpdater f' pbar label_k lbl inc each_file fc')"
  using assms
  by (simp del: seq.simps split: prod.splits option.splits sum.splits)

lemma element_update_raises:
  "element_update lib key attrs w = (Some e, w') \<Longrightarrow> e = KeyError key"
  by (auto simp: element_update_def window_getitem_def
        split: sum.splits option.splits if_splits missing_key.splits)

lemma before_label_raises:
  "seq [advance inc, (\<lambda>w. element_update lib pbar [Current_count (current_progress w)] w)] w = (Some e, w')
   \<Longrightarrow> e = KeyError pbar"
  by (auto simp: advance_def split: option.splits prod.splits dest: element_update_raises)

lemma after_label_raises:
  "seq [element_update lib label_k [Value ext], refresh, print_builtin args kw] w = (Some e, w')
   \<Longrightarrow> e = KeyError label_k \<or> e = TypeError"
  by (auto simp: refresh_def print_builtin_def split: option.splits prod.splits if_splits
        dest: element_update_raises)

lemma extended_label_assigned:
  "each_file \<longrightarrow> fc \<noteq> None \<Longrightarrow>
   \<exists>ext fc'. extended_label lbl each_file fc = Inr (ext, fc') \<and> (each_file \<longrightarrow> fc' \<noteq> None)"
  by (auto simp: extended_label_def)

lemma call_file_count:
  "file_count_assigned c \<Longrightarrow> call lib c args kw out w = (r, c', w') \<Longrightarrow>
     file_count_assigned c'
     \<and> (r = Inl (AttributeError ''file_count'') \<longrightarrow> out = Inl (AttributeError ''file_count''))"
proof (induction c arbitrary: args w r c' w')
  case (Function name)
  then show ?case by auto
next
  case (ProgressUpdater f pbar label_k lbl inc each_file fc)
  from ProgressUpdater.prems(1) have fc: "each_file \<longrightarrow> fc \<noteq> None" and f: "file_count_assigned f"
    by simp_all
  from extended_label_assigned [OF fc, of lbl] obtain ext0 fc0 where
    el: "extended_label lbl each_file fc = Inr (ext0, fc0)" and fc0: "each_file \<longrightarrow> fc0 \<noteq> None"
    by blast
  from call_updater_cases [OF ProgressUpdater.prems(2)] show ?case
  proof (elim disjE exE conjE)
    fix e
    assume "seq [advance inc, (\<lambda>w. element_update lib pbar [Current_count (current_progress w)] w)] w = (Some e, w')"
      and "r = Inl e" and "c' = ProgressUpdater f pbar label_k lbl inc each_file fc"
    with before_label_raises [of inc lib pbar w e w'] fc f show ?thesis by auto
  next
    fix e
    assume "extended_label lbl each_file fc = Inl e"
    with el show ?thesis by simp
  next
    fix w1 ext fc' e
    assume "extended_label lbl each_file fc = Inr (ext, fc')"
      and "seq [element_update lib label_k [Value ext], refresh, print_builtin args kw] w1 = (Some e, w')"
      and "r = Inl e" and "c' = ProgressUpdater f pbar label_k lbl inc each_file fc'"
    with after_label_raises [of lib label_k ext args kw w1 e w'] el fc0 f show ?thesis by auto
  next
    fix w1 ext fc' w2 f'
    assume "extended_label lbl each_file fc = Inr (ext, fc')"
      and d: "call lib f args kw out w2 = (r, f', w')"
      and "c' = ProgressUpdater f' pbar label_k lbl inc each_file fc'"
    with ProgressUpdater.IH [OF f d] el fc0 show ?thesis by auto
  qed
next
  case (Partial c v)
  obtain r1 c1 w1 where c: "call lib c (v # args) kw out w = (r1, c1, w1)"
    by (cases "call lib c (v # args) kw out w")
  from Partial.prems(1) have "file_count_assigned c" by simp
  from Partial.IH [OF this c] Partial.prems(2) c show ?case by auto
qed

lemma invocations_file_count:
  "file_count_assigned c \<Longrightarrow> invocations lib c calls w = (c', w') \<Longrightarrow> file_count_assigned c'"
proof (induction calls arbitrary: c w)
  case Nil
  then show ?case by simp
next
  case (Cons a calls)
  obtain args kw out where a: "a = (args, kw, out)" by (cases a)
  obtain r c1 w1 where c: "call lib c args kw out w = (r, c1, w1)"
    by (cases "call lib c args kw out w")
  from call_file_count [OF Cons.prems(1) c] have "file_count_assigned c1" by simp
  moreover from Cons.prems(2) a c have "invocations lib c1 calls w1 = (c', w')" by simp
  ultimately show ?case by (rule Cons.IH)
qed

text \<open>
  C10. An instrumentor that \<^verbatim>\<open>__init__\<close> builds with \<^verbatim>\<open>runs_each_file = False\<close> never
  has \<^verbatim>\<open>file_count\<close> assigned, and the branch of \<^verbatim>\<open>__call__\<close> for such an instrumentor
  does not read it: the label is the plain label whatever \<open>fc\<close> is. One built with
  \<^verbatim>\<open>runs_each_file = True\<close> has \<^verbatim>\<open>file_count = 1\<close> from construction on. So no invocation,
  after any number of earlier invocations, fails with the attribute error for
  \<^verbatim>\<open>file_count\<close>, unless the plain function at the bottom raises that very exception.
\<close>

theorem file_count_never_missing:
  assumes "file_count_assigned f"
    and "ProgressUpdater_init f pbar label_k weight N lbl each_file = Inr u"
  shows "(\<not> each_file \<longrightarrow> \<not> runs_each_file u \<and> file_count u = None)
       \<and> (each_file \<longrightarrow> runs_each_file u \<and> file_count u = Some 1)
       \<and> extended_label lbl False fc = Inr (lbl, fc)
       \<and> (fst (call lib (fst (invocations lib u calls w)) args kw out (snd (invocations lib u calls w)))
            = Inl (AttributeError ''file_count'')
          \<longrightarrow> out = Inl (AttributeError ''file_count''))"
proof -
  from assms have u: "file_count_assigned u"
    by (auto simp: ProgressUpdater_init_def split: if_splits)
  obtain u' w' where i: "invocations lib u calls w = (u', w')"
    by (cases "invocations lib u calls w")
  from invocations_file_count [OF u i] have u': "file_count_assigned u'" .
  obtain r c2 w2 where c: "call lib u' args kw out w' = (r, c2, w2)"
    by (cases "call lib u' args kw out w'")
  from call_file_count [OF u' c] i c
  have "fst (call lib (fst (invocations lib u calls w)) args kw out (snd (invocations lib u calls w)))
            = Inl (AttributeError ''file_count'')
          \<longrightarrow> out = Inl (AttributeError ''file_count'')"
    by simp
  moreover from assms(2) have "(\<not> each_file \<longrightarrow> \<not> runs_each_file u \<and> file_count u = None)
       \<and> (each_file \<longrightarrow> runs_each_file u \<and> file_count u = Some 1)"
    by (auto simp: ProgressUpdater_init_def split: if_splits)
  ultimately show ?thesis by (simp add: extended_label_def)
qed

theorem file_count_never_missing_witness:
  "file_count_assigned (Function ''DiffeoImageDir.save'')
   \<and> ProgressUpdater_init (Function ''DiffeoImageDir.save'') ''-PBAR-'' ''-PBARLABEL-'' 5 2 ''Saving'' False
       = Inr (ProgressUpdater (Function ''DiffeoImageDir.save'') ''-PBAR-'' ''-PBARLABEL-'' ''Saving'' 5 False None)
   \<and> \<not> runs_each_file (ProgressUpdater (Function ''DiffeoImageDir.save'') ''-PBAR-'' ''-PBARLABEL-'' ''Saving'' 5 False None)
   \<and> file_count (ProgressUpdater (Function ''DiffeoImageDir.save'') ''-PBAR-'' ''-PBARLABEL-'' ''Saving'' 5 False None) = None
   \<and> extended_label ''Saving'' False None = Inr (''Saving'', None)
   \<and> fst (call (library_with KeyRaises)
         (fst (invocations (library_with KeyRaises)
            (ProgressUpdater (Function ''DiffeoImageDir.save'') ''-PBAR-'' ''-PBARLABEL-'' ''Saving'' 5 False None)
            [([PyObj ''out''], [], Inr PyNone)] world0))
         [PyObj ''out''] [] (Inr (PyInt 7))
         (snd (invocations (library_with KeyRaises)
            (ProgressUpdater (Function ''DiffeoImageDir.save'') ''-PBAR-'' ''-PBARLABEL-'' ''Saving'' 5 False None)
            [([PyObj ''out''], [], Inr PyNone)] world0)))
       \<noteq> Inl (AttributeError ''file_count'')"
  using file_count_never_missing [of "Function ''DiffeoImageDir.save''" "''-PBAR-''" "''-PBARLABEL-''" 5 2 "''Saving''" False
      "ProgressUpdater (Function ''DiffeoImageDir.save'') ''-PBAR-'' ''-PBARLABEL-'' ''Saving'' 5 False None"
      None "library_with KeyRaises" "[([PyObj ''out''], [], Inr PyNone)]" world0 "[PyObj ''out'']" "[]" "Inr (PyInt 7)"]
  by (auto simp: ProgressUpdater_init_def simp del: call.simps invocations.simps)

subsection \<open>Rejected requests\<close>

text \<open>
  C9. When the input field or the output field is empty, the handler shows the
  message of that case on the error element and does nothing else: the result is the
  world it started in with that one update, so the accumulator keeps its value (0 when
  it was 0), the stage slots are untouched, and the trace gains neither the entry into
  the pipeline nor anything but the update of the error element.
\<close>

theorem precondition_rejection:
  assumes "INPUTS v = [] \<or> OUTPUT v = []"
  shows "\<exists>msg. rejection v = Some msg
           \<and> msg = (if INPUTS v = [] \<and> OUTPUT v = [] then
                      ''ERROR: One or more files/folders must be supplied as an input; exactly one folder must be supplied as an output''
                    else if INPUTS v = [] then ''ERROR: One or more files/folders must be supplied as an input''
                    else ''ERROR: Exactly one folder must be supplied as an output'')
           \<and> run_handler lib ep v w =
               (None, w\<lparr>window := (window w)(''-ERROR-'' :=
                            (window w ''-ERROR-'')\<lparr>shown_value := msg, text_color := ''red''\<rparr>),
                        trace := trace w @ [Update ''-ERROR-'' [Value msg, Text_color ''red'']]\<rparr>)
           \<and> current_progress (snd (run_handler lib ep v w)) = current_progress w
           \<and> diffeo (snd (run_handler lib ep v w)) = diffeo w
           \<and> trace (snd (run_handler lib ep v w)) = trace w @ [Update ''-ERROR-'' [Value msg, Text_color ''red'']]"
proof -
  have key: "''-ERROR-'' \<in> set layout_keys" by (simp add: layout_keys_def)
  from assms obtain msg where m: "rejection v = Some msg"
    and ms: "msg = (if INPUTS v = [] \<and> OUTPUT v = [] then
                      ''ERROR: One or more files/folders must be supplied as an input; exactly one folder must be supplied as an output''
                    else if INPUTS v = [] then ''ERROR: One or more files/folders must be supplied as an input''
                    else ''ERROR: Exactly one folder must be supplied as an output'')"
    by (auto simp: rejection_def)
  have run: "run_handler lib ep v w =
               (None, w\<lparr>window := (window w)(''-ERROR-'' :=
                            (window w ''-ERROR-'')\<lparr>shown_value := msg, text_color := ''red''\<rparr>),
                        trace := trace w @ [Update ''-ERROR-'' [Value msg, Text_color ''red'']]\<rparr>)"
    by (simp add: run_handler_def m element_update_layout [OF key])
  from m ms run show ?thesis by simp
qed

theorem precondition_rejection_witness:
  "(INPUTS no_inputs = [] \<or> OUTPUT no_inputs = [])
   \<and> rejection no_inputs = Some ''ERROR: One or more files/folders must be supplied as an input''
   \<and> fst (run_handler (library_with KeyRaises) pipeline_ok no_inputs world0) = None
   \<and> current_progress (snd (run_handler (library_with KeyRaises) pipeline_ok no_inputs world0)) = 0
   \<and> diffeo (snd (run_handler (library_with KeyRaises) pipeline_ok no_inputs world0)) = original
   \<and> trace (snd (run_handler (library_with KeyRaises) pipeline_ok no_inputs world0))
       = [Update ''-ERROR-'' [Value ''ERROR: One or more files/folders must be supplied as an input'', Text_color ''red'']]"
  using precondition_rejection [of no_inputs "library_with KeyRaises" pipeline_ok world0]
  by (auto simp: no_inputs_def world0_def)

subsection \<open>Teardown and reset\<close>

lemma element_update_resets:
  "element_update lib key attrs w = (e, w') \<Longrightarrow> count_list (trace w') Reset = count_list (trace w) Reset"
  by (auto simp: element_update_def split: sum.splits option.splits)

lemma before_label_resets:
  "seq [advance inc, (\<lambda>w. element_update lib pbar [Current_count (current_progress w)] w)] w = (e, w')
   \<Longrightarrow> count_list (trace w') Reset = count_list (trace w) Reset"
  by (auto simp: advance_def split: option.splits prod.splits dest: element_update_resets)

lemma after_label_resets:
  "seq [element_update lib label_k [Value ext], refresh, print_builtin args kw] w = (e, w')
   \<Longrightarrow> count_list (trace w') Reset = count_list (trace w) Reset"
  by (auto simp: refresh_def print_builtin_def split: option.splits prod.splits if_splits
        dest: element_update_resets)

lemma call_resets:
  "call lib c args kw out w = (r, c', w') \<Longrightarrow> count_list (trace w') Reset = count_list (trace w) Reset"
proof (induction c arbitrary: args w r c' w')
  case (Function name)
  then show ?case by auto
next
  case (ProgressUpdater f pbar label_k lbl inc each_file fc)
  from call_updater_cases [OF ProgressUpdater.prems] show ?case
  proof (elim disjE exE conjE)
    fix e
    assume "seq [advance inc, (\<lambda>w. element_update lib pbar [Current_count (current_progress w)] w)] w = (Some e, w')"
    then show ?thesis by (rule before_label_resets)
  next
    fix e
    assume "seq [advance inc, (\<lambda>w. element_update lib pbar [Current_count (current_progress w)] w)] w = (None, w')"
    then show ?thesis by (rule before_label_resets)
  next
    fix w1 ext fc' e
    assume a1: "seq [advance inc, (\<lambda>w. element_update lib pbar [Current_count (current_progress w)] w)] w = (None, w1)"
      and a2: "seq [element_update lib label_k [Value ext], refresh, print_builtin args kw] w1 = (Some e, w')"
    from before_label_resets [OF a1] after_label_resets [OF a2] show ?thesis by simp
  next
    fix w1 ext fc' w2 f'
    assume a1: "seq [advance inc, (\<lambda>w. element_update lib pbar [Current_count (current_progress w)] w)] w = (None, w1)"
      and a2: "seq [element_update lib label_k [Value ext], refresh, print_builtin args kw] w1 = (None, w2)"
      and a3: "call lib f args kw out w2 = (r, f', w')"
    from before_label_resets [OF a1] after_label_resets [OF a2] ProgressUpdater.IH [OF a3]
    show ?thesis by simp
  qed
next
  case (Partial c v)
  obtain r1 c1 w1 where c: "call lib c (v # args) kw out w = (r1, c1, w1)"
    by (cases "call lib c (v # args) kw out w")
  from Partial.IH [OF c] Partial.prems c show ?case by auto
qed

lemma invoke_resets:
  "invoke lib s inst args kw out w = (r, w') \<Longrightarrow> count_list (trace w') Reset = count_list (trace w) Reset"
proof -
  assume a: "invoke lib s inst args kw out w = (r, w')"
  obtain r1 c1 w1 where c: "call lib (descr_get (diffeo w s) inst) args kw out w = (r1, c1, w1)"
    by (cases "call lib (descr_get (diffeo w s) inst) args kw out w")
  from a c have "trace w' = trace w1" by (auto simp: invoke_def simp del: call.simps)
  with call_resets [OF c] show ?thesis by simp
qed

lemma run_stages_resets:
  "run_stages lib cs w = (e, w') \<Longrightarrow> count_list (trace w') Reset = count_list (trace w) Reset"
proof (induction cs arbitrary: w)
  case Nil
  then show ?case by simp
next
  case (Cons a cs)
  obtain s inst args kw out where a: "a = (s, inst, args, kw, out)" by (cases a)
  obtain r w1 where i: "invoke lib s inst args kw out w = (r, w1)"
    by (cases "invoke lib s inst args kw out w")
  show ?case
  proof (cases r)
    case (Inl x)
    with Cons.prems a i invoke_resets [OF i] show ?thesis by simp
  next
    case (Inr y)
    with Cons.prems a i have "run_stages lib cs w1 = (e, w')" by simp
    from Cons.IH [OF this] invoke_resets [OF i] show ?thesis by simp
  qed
qed

lemma run_diffeomorph_resets:
  "run_diffeomorph lib sc w = (e, w') \<Longrightarrow> count_list (trace w') Reset = count_list (trace w) Reset"
proof -
  assume a: "run_diffeomorph lib sc w = (e, w')"
  obtain e1 w1 where r: "run_stages lib (fst sc) (w\<lparr>trace := trace w @ [RunDiffeomorph]\<rparr>) = (e1, w1)"
    by (cases "run_stages lib (fst sc) (w\<lparr>trace := trace w @ [RunDiffeomorph]\<rparr>)")
  from a r have "w' = w1" by (auto simp: run_diffeomorph_def split: option.splits)
  with run_stages_resets [OF r] show ?thesis by simp
qed

lemma except_resets:
  "except_FileNotFoundError lib w = (e, w') \<Longrightarrow> count_list (trace w') Reset = count_list (trace w) Reset"
  by (auto simp: except_FileNotFoundError_def split: option.splits prod.splits
        dest!: element_update_resets)

lemma else_block_effect:
  "else_block lib w =
     (None, w\<lparr>window := (window w)
                 (''-PBAR-'' := (window w ''-PBAR-'')\<lparr>current_count := 100\<rparr>,
                  ''-PBARLABEL-'' := (window w ''-PBARLABEL-'')\<lparr>shown_value := ''Diffeomorphing complete!''\<rparr>),
              trace := trace w @ [Update ''-PBAR-'' [Current_count 100],
                                  Update ''-PBARLABEL-'' [Value ''Diffeomorphing complete!''],
                                  Refresh, Sleep 2]\<rparr>)"
  by (simp add: else_block_def element_update_layout layout_keys_def refresh_def sleep_def)

lemma try_except_else_resets:
  "try_except_else lib sc w = (e, w') \<Longrightarrow> count_list (trace w') Reset = count_list (trace w) Reset"
proof -
  assume a: "try_except_else lib sc w = (e, w')"
  obtain e1 w1 where r: "run_diffeomorph lib sc w = (e1, w1)"
    by (cases "run_diffeomorph lib sc w")
  from a r have "count_list (trace w') Reset = count_list (trace w1) Reset"
    by (auto simp: try_except_else_def else_block_effect split: option.splits if_splits
          dest: except_resets)
  with run_diffeomorph_resets [OF r] show ?thesis by simp
qed

lemma finally_block_effect:
  "\<exists>w'. finally_block lib w = (None, w')
        \<and> current_progress w' = 0
        \<and> trace w' = trace w @ [Update ''-PBAR-'' [Current_count 0, Visible False],
                                 Update ''-PBARLABEL-'' [Value '''', Visible False], Reset]
        \<and> window w' = (window w)
                 (''-PBAR-'' := (window w ''-PBAR-'')\<lparr>current_count := 0, visible := False\<rparr>,
                  ''-PBARLABEL-'' := (window w ''-PBARLABEL-'')\<lparr>shown_value := '''', visible := False\<rparr>)
        \<and> diffeo w' = (diffeo w)
                 (DiffeoImage_init := unwrap (descr_get (diffeo w DiffeoImageDir_init) PyNone),
                  DiffeoImage_getdiffeo := unwrap (descr_get (diffeo w DiffeoImage_getdiffeo) PyNone),
                  DiffeoImage_interpolate_image := unwrap (descr_get (diffeo w DiffeoImage_interpolate_image) PyNone),
                  DiffeoImageDir_save := unwrap (descr_get (diffeo w DiffeoImageDir_save) PyNone))"
  by (simp add: finally_block_def element_update_layout layout_keys_def uninstall_def
        unwrap_into_def reset_def)

lemma split_on_nonempty: "split_on c s \<noteq> []"
  by (induction s) (auto split: list.splits)

lemma prepare_effect:
  "\<exists>w'. prepare lib w = (None, w')
        \<and> current_progress w' = current_progress w
        \<and> diffeo w' = diffeo w
        \<and> trace w' = trace w @ [Update ''-ERROR-'' [Value ''''],
                                 Update ''-PBAR-'' [Current_count 0, Visible True],
                                 Update ''-PBARLABEL-'' [Visible True]]"
  by (simp add: prepare_def element_update_layout layout_keys_def)

lemma run_handler_accepted:
  assumes "rejection v = None"
    and "py_int lib (MAXDISTORTION v) = Inr maxdistortion"
    and "py_int lib (NSTEPS v) = Inr nsteps"
  shows "\<exists>w1 w2. prepare lib w = (None, w1)
           \<and> install (int (length (split_on CHR '';'' (INPUTS v)))) w1 = (None, w2)
           \<and> run_handler lib ep v w =
               try_statement lib (ep (split_on CHR '';'' (INPUTS v)) (OUTPUT v) maxdistortion nsteps
                                    (SAVE_STEPS v) (\<not> NO_UPSCALING v)) w2"
proof -
  from prepare_effect [of lib w] obtain w1 where
    p: "prepare lib w = (None, w1)"
    by blast
  have "int (length (split_on CHR '';'' (INPUTS v))) \<noteq> 0"
    using split_on_nonempty [of "CHR '';''" "INPUTS v"] by simp
  from install_fresh [OF this, of w1] obtain w2 where
    i: "install (int (length (split_on CHR '';'' (INPUTS v)))) w1 = (None, w2)"
    by blast
  from p i assms have "run_handler lib ep v w =
               try_statement lib (ep (split_on CHR '';'' (INPUTS v)) (OUTPUT v) maxdistortion nsteps
                                    (SAVE_STEPS v) (\<not> NO_UPSCALING v)) w2"
    by (simp add: run_handler_def Let_def)
  with p i show ?thesis by blast
qed

lemma try_statement_resets:
  "current_progress (snd (try_statement lib sc w)) = 0
   \<and> count_list (trace (snd (try_statement lib sc w))) Reset = count_list (trace w) Reset + 1
   \<and> last (trace (snd (try_statement lib sc w))) = Reset"
proof -
  obtain exc w1 where t: "try_except_else lib sc w = (exc, w1)"
    by (cases "try_except_else lib sc w")
  from finally_block_effect [of lib w1] obtain w2 where
    f: "finally_block lib w1 = (None, w2)" and p: "current_progress w2 = 0"
    and tr: "trace w2 = trace w1 @ [Update ''-PBAR-'' [Current_count 0, Visible False],
                                 Update ''-PBARLABEL-'' [Value '''', Visible False], Reset]"
    by blast
  from t f have "snd (try_statement lib sc w) = w2" by (simp add: try_statement_def)
  with p tr try_except_else_resets [OF t] show ?thesis by simp
qed

text \<open>
  C4. A request that passes the check of the fields and whose two numbers parse
  reaches the \<^verbatim>\<open>try\<close> statement; however the pipeline ends (normally, with the
  missing-file error, or with any other exception), the handler leaves the accumulator
  at exactly 0, \<^verbatim>\<open>reset\<close> has run exactly once more than before the run, and it is the
  last thing the run did.
\<close>

theorem teardown_resets_progress:
  assumes "rejection v = None"
    and "py_int lib (MAXDISTORTION v) = Inr maxdistortion"
    and "py_int lib (NSTEPS v) = Inr nsteps"
  shows "current_progress (snd (run_handler lib ep v w)) = 0
       \<and> count_list (trace (snd (run_handler lib ep v w))) Reset = count_list (trace w) Reset + 1
       \<and> last (trace (snd (run_handler lib ep v w))) = Reset"
proof -
  from run_handler_accepted [OF assms, of w ep] obtain w1 w2 where
    p: "prepare lib w = (None, w1)"
    and i: "install (int (length (split_on CHR '';'' (INPUTS v)))) w1 = (None, w2)"
    and r: "run_handler lib ep v w =
               try_statement lib (ep (split_on CHR '';'' (INPUTS v)) (OUTPUT v) maxdistortion nsteps
                                    (SAVE_STEPS v) (\<not> NO_UPSCALING v)) w2"
    by blast
  from prepare_effect [of lib w] p have t1: "count_list (trace w1) Reset = count_list (trace w) Reset"
    by auto
  have "int (length (split_on CHR '';'' (INPUTS v))) \<noteq> 0"
    using split_on_nonempty [of "CHR '';''" "INPUTS v"] by simp
  from install_fresh [OF this, of w1] i have t2: "trace w2 = trace w1" by auto
  from try_statement_resets [of lib _ w2] r t1 t2 show ?thesis by simp
qed

theorem teardown_resets_progress_witness:
  "rejection two_files = None
   \<and> py_int (library_with KeyRaises) (MAXDISTORTION two_files) = Inr 80
   \<and> py_int (library_with KeyRaises) (NSTEPS two_files) = Inr 20
   \<and> current_progress (snd (run_handler (library_with KeyRaises) pipeline_missing_file two_files world0)) = 0
   \<and> count_list (trace (snd (run_handler (library_with KeyRaises) pipeline_missing_file two_files world0))) Reset = 1
   \<and> last (trace (snd (run_handler (library_with KeyRaises) pipeline_missing_file two_files world0))) = Reset"
proof -
  have a: "rejection two_files = None"
    by (simp add: rejection_def two_files_def)
  have b: "py_int (library_with KeyRaises) (MAXDISTORTION two_files) = Inr 80"
    by (simp add: library_with_def two_files_def int_of_digits_def)
  have c: "py_int (library_with KeyRaises) (NSTEPS two_files) = Inr 20"
    by (simp add: library_with_def two_files_def int_of_digits_def)
  from teardown_resets_progress [OF a b c, of pipeline_missing_file world0] a b c
  show ?thesis by (simp add: world0_def)
qed

subsection \<open>Successful completion\<close>

lemma invoke_plain_updater:
  assumes "diffeo w s = ProgressUpdater (Function n) pbar label_k lbl inc each_file fc"
    and "pbar \<in> set layout_keys" and "label_k \<in> set layout_keys"
    and "each_file \<longrightarrow> fc \<noteq> None"
  shows "\<exists>fc' w'. invoke lib s inst args [] out w = (out, w')
           \<and> current_progress w' = current_progress w + inc
           \<and> diffeo w' = (diffeo w)(s := ProgressUpdater (Function n) pbar label_k lbl inc each_file fc')
           \<and> (each_file \<longrightarrow> fc' \<noteq> None)"
  using assms
  by (cases fc)
     (auto simp: invoke_def advance_def refresh_def print_builtin_def element_update_layout
        extended_label_def)

lemma run_stages_plain_updaters:
  assumes "\<forall>s\<in>S. \<exists>n lbl each_file fc.
             diffeo w s = ProgressUpdater (Function n) ''-PBAR-'' ''-PBARLABEL-'' lbl (inc s) each_file fc
             \<and> (each_file \<longrightarrow> fc \<noteq> None)"
    and "\<forall>c\<in>set cs. fst c \<in> S \<and> fst (snd (snd (snd c))) = [] \<and> (\<exists>v. snd (snd (snd (snd c))) = Inr v)"
  shows "fst (run_stages lib cs w) = None
       \<and> current_progress (snd (run_stages lib cs w)) = current_progress w + sum_list (map (\<lambda>c. inc (fst c)) cs)"
  using assms
proof (induction cs arbitrary: w)
  case Nil
  then show ?case by simp
next
  case (Cons a cs)
  obtain s inst args kw out where a: "a = (s, inst, args, kw, out)" by (cases a)
  from Cons.prems(2) a obtain v where s: "s \<in> S" and kw: "kw = []" and out: "out = Inr v"
    by auto
  from Cons.prems(1) s obtain n lbl each_file fc where
    d: "diffeo w s = ProgressUpdater (Function n) ''-PBAR-'' ''-PBARLABEL-'' lbl (inc s) each_file fc"
    and fc: "each_file \<longrightarrow> fc \<noteq> None" by blast
  have k: "''-PBAR-'' \<in> set layout_keys" "''-PBARLABEL-'' \<in> set layout_keys"
    by (simp_all add: layout_keys_def)
  from invoke_plain_updater [OF d k fc, of lib inst args out] obtain fc' w1 where
    i: "invoke lib s inst args [] out w = (out, w1)"
    and p: "current_progress w1 = current_progress w + inc s"
    and d1: "diffeo w1 = (diffeo w)(s := ProgressUpdater (Function n) ''-PBAR-'' ''-PBARLABEL-'' lbl (inc s) each_file fc')"
    and fc': "each_file \<longrightarrow> fc' \<noteq> None"
    by blast
  have inv: "\<forall>s\<in>S. \<exists>n lbl each_file fc.
             diffeo w1 s = ProgressUpdater (Function n) ''-PBAR-'' ''-PBARLABEL-'' lbl (inc s) each_file fc
             \<and> (each_file \<longrightarrow> fc \<noteq> None)"
  proof
    fix t assume t: "t \<in> S"
    show "\<exists>n lbl each_file fc.
             diffeo w1 t = ProgressUpdater (Function n) ''-PBAR-'' ''-PBARLABEL-'' lbl (inc t) each_file fc
             \<and> (each_file \<longrightarrow> fc \<noteq> None)"
    proof (cases "t = s")
      case True
      with d1 fc' show ?thesis by simp
    next
      case False
      with d1 Cons.prems(1) t show ?thesis by simp
    qed
  qed
  from Cons.prems(2) have rest: "\<forall>c\<in>set cs. fst c \<in> S \<and> fst (snd (snd (snd c))) = []
      \<and> (\<exists>v. snd (snd (snd (snd c))) = Inr v)" by simp
  from Cons.IH [OF inv rest] have
    "fst (run_stages lib cs w1) = None
     \<and> current_progress (snd (run_stages lib cs w1)) = current_progress w1 + sum_list (map (\<lambda>c. inc (fst c)) cs)" .
  moreover from a kw out i have "run_stages lib (a # cs) w = run_stages lib cs w1" by simp
  ultimately show ?case using p a by simp
qed

lemma at_try_two_files:
  "current_progress (at_try lib two_files) = 0
   \<and> (\<forall>s\<in>{DiffeoImage_init, DiffeoImage_getdiffeo, DiffeoImage_interpolate_image, DiffeoImageDir_save}.
        \<exists>n lbl each_file fc.
          diffeo (at_try lib two_files) s =
            ProgressUpdater (Function n) ''-PBAR-'' ''-PBARLABEL-'' lbl
              (case s of DiffeoImage_init \<Rightarrow> 2 | DiffeoImage_getdiffeo \<Rightarrow> 12
                 | DiffeoImage_interpolate_image \<Rightarrow> 32 | _ \<Rightarrow> 5) each_file fc
          \<and> (each_file \<longrightarrow> fc \<noteq> None))"
proof -
  have s: "int (length (split_on CHR '';'' (INPUTS two_files))) = 2"
    by (simp add: two_files_def)
  from prepare_effect [of lib "world_with_fields two_files"] obtain w1 where
    p: "prepare lib (world_with_fields two_files) = (None, w1)"
    and c1: "current_progress w1 = current_progress (world_with_fields two_files)"
    and d1: "diffeo w1 = diffeo (world_with_fields two_files)" by blast
  have "(2::int) \<noteq> 0" by simp
  from install_fresh [OF this, of w1] p s d1 c1 show ?thesis
    by (auto simp: at_try_def world_with_fields_def world0_def)
qed

lemma run_diffeomorph_two_files:
  "fst (run_diffeomorph lib two_files_script (at_try lib two_files)) = None
   \<and> current_progress (snd (run_diffeomorph lib two_files_script (at_try lib two_files))) = 97"
proof -
  let ?inc = "\<lambda>s. case s of DiffeoImage_init \<Rightarrow> (2::int) | DiffeoImage_getdiffeo \<Rightarrow> 12
                 | DiffeoImage_interpolate_image \<Rightarrow> 32 | _ \<Rightarrow> 5"
  let ?w = "(at_try lib two_files)\<lparr>trace := trace (at_try lib two_files) @ [RunDiffeomorph]\<rparr>"
  from at_try_two_files [of lib] have inv:
    "\<forall>s\<in>{DiffeoImage_init, DiffeoImage_getdiffeo, DiffeoImage_interpolate_image, DiffeoImageDir_save}.
        \<exists>n lbl each_file fc.
          diffeo ?w s = ProgressUpdater (Function n) ''-PBAR-'' ''-PBARLABEL-'' lbl (?inc s) each_file fc
          \<and> (each_file \<longrightarrow> fc \<noteq> None)"
    and cp: "current_progress ?w = 0" by simp_all
  have calls: "\<forall>c\<in>set (fst two_files_script).
      fst c \<in> {DiffeoImage_init, DiffeoImage_getdiffeo, DiffeoImage_interpolate_image, DiffeoImageDir_save}
      \<and> fst (snd (snd (snd c))) = [] \<and> (\<exists>v. snd (snd (snd (snd c))) = Inr v)"
    by (simp add: two_files_script_def pipeline_ok_def item_stages_def)
  have total: "sum_list (map (\<lambda>c. ?inc (fst c)) (fst two_files_script)) = 97"
    by (simp add: two_files_script_def pipeline_ok_def item_stages_def)
  have fin: "snd two_files_script = None"
    by (simp add: two_files_script_def pipeline_ok_def)
  from run_stages_plain_updaters [OF inv calls, of lib] total cp
  have "fst (run_stages lib (fst two_files_script) ?w) = None
       \<and> current_progress (snd (run_stages lib (fst two_files_script) ?w)) = 97"
    by simp
  with fin show ?thesis
    by (cases "run_stages lib (fst two_files_script) ?w") (simp add: run_diffeomorph_def)
qed

lemma try_except_else_success:
  assumes "fst (run_diffeomorph lib sc w) = None"
  shows "try_except_else lib sc w = else_block lib (snd (run_diffeomorph lib sc w))"
  using assms by (cases "run_diffeomorph lib sc w") (simp add: try_except_else_def)

text \<open>
  C2, as the claim states it, fails: in a first run on two files whose pipeline
  returns normally, the handler is at the end of its \<^verbatim>\<open>else\<close> clause, before the cleanup,
  with the accumulator at 97, not at 100.
\<close>

theorem completion_keeps_accumulator_counterexample:
  "run_handler (library_with KeyIgnored) pipeline_ok two_files (world_with_fields two_files)
     = try_statement (library_with KeyIgnored) two_files_script (at_try (library_with KeyIgnored) two_files)
   \<and> fst (try_except_else (library_with KeyIgnored) two_files_script (at_try (library_with KeyIgnored) two_files)) = None
   \<and> current_progress (snd (try_except_else (library_with KeyIgnored) two_files_script
         (at_try (library_with KeyIgnored) two_files))) = 97
   \<and> current_progress (snd (try_except_else (library_with KeyIgnored) two_files_script
         (at_try (library_with KeyIgnored) two_files))) \<noteq> 100"
proof -
  have a: "rejection two_files = None"
    by (simp add: rejection_def two_files_def)
  have b: "py_int (library_with KeyIgnored) (MAXDISTORTION two_files) = Inr 80"
    by (simp add: library_with_def two_files_def int_of_digits_def)
  have c: "py_int (library_with KeyIgnored) (NSTEPS two_files) = Inr 20"
    by (simp add: library_with_def two_files_def int_of_digits_def)
  have s: "split_on CHR '';'' (INPUTS two_files) = [''a.png'', ''b.png'']"
    by (simp add: two_files_def)
  from run_handler_accepted [OF a b c, of "world_with_fields two_files" pipeline_ok]
  have "run_handler (library_with KeyIgnored) pipeline_ok two_files (world_with_fields two_files)
     = try_statement (library_with KeyIgnored) two_files_script (at_try (library_with KeyIgnored) two_files)"
    by (auto simp: at_try_def two_files_script_def s) (simp add: two_files_def)
  moreover from try_except_else_success [of "library_with KeyIgnored" two_files_script "at_try (library_with KeyIgnored) two_files"]
    run_diffeomorph_two_files
  have "fst (try_except_else (library_with KeyIgnored) two_files_script (at_try (library_with KeyIgnored) two_files)) = None
   \<and> current_progress (snd (try_except_else (library_with KeyIgnored) two_files_script
         (at_try (library_with KeyIgnored) two_files))) = 97"
    by (simp add: else_block_effect)
  ultimately show ?thesis by simp
qed

text \<open>
  C2, amended. When the pipeline entry point returns normally, the \<^verbatim>\<open>else\<close> clause sets
  the count of the progress bar element to 100 and shows the completion label, then
  refreshes the window and sleeps, all before the cleanup; the accumulator itself keeps
  the value that the instrumentors gave it until the cleanup sets it to 0 and the
  count of the bar to 0.
\<close>

theorem completion_shown_on_success:
  assumes "fst (run_diffeomorph lib sc w) = None"
  shows "fst (try_except_else lib sc w) = None
       \<and> current_progress (snd (try_except_else lib sc w)) = current_progress (snd (run_diffeomorph lib sc w))
       \<and> current_count (window (snd (try_except_else lib sc w)) ''-PBAR-'') = 100
       \<and> shown_value (window (snd (try_except_else lib sc w)) ''-PBARLABEL-'') = ''Diffeomorphing complete!''
       \<and> trace (snd (try_except_else lib sc w)) =
           trace (snd (run_diffeomorph lib sc w))
             @ [Update ''-PBAR-'' [Current_count 100],
                Update ''-PBARLABEL-'' [Value ''Diffeomorphing complete!''], Refresh, Sleep 2]
       \<and> fst (try_statement lib sc w) = None
       \<and> current_progress (snd (try_statement lib sc w)) = 0
       \<and> current_count (window (snd (try_statement lib sc w)) ''-PBAR-'') = 0"
proof -
  let ?w1 = "snd (run_diffeomorph lib sc w)"
  from try_except_else_success [OF assms]
  have t: "try_except_else lib sc w = else_block lib ?w1" .
  obtain w2 where w2: "else_block lib ?w1 = (None, w2)"
    and p2: "current_progress w2 = current_progress ?w1"
    and b2: "current_count (window w2 ''-PBAR-'') = 100"
    and l2: "shown_value (window w2 ''-PBARLABEL-'') = ''Diffeomorphing complete!''"
    and t2: "trace w2 = trace ?w1 @ [Update ''-PBAR-'' [Current_count 100],
                Update ''-PBARLABEL-'' [Value ''Diffeomorphing complete!''], Refresh, Sleep 2]"
    by (simp add: else_block_effect)
  from finally_block_effect [of lib w2] obtain w3 where
    f: "finally_block lib w2 = (None, w3)" and p3: "current_progress w3 = 0"
    and w3: "window w3 = (window w2)
                 (''-PBAR-'' := (window w2 ''-PBAR-'')\<lparr>current_count := 0, visible := False\<rparr>,
                  ''-PBARLABEL-'' := (window w2 ''-PBARLABEL-'')\<lparr>shown_value := '''', visible := False\<rparr>)"
    by blast
  from t w2 f have ts: "try_statement lib sc w = (None, w3)"
    by (simp add: try_statement_def)
  from w3 have "current_count (window w3 ''-PBAR-'') = 0" by simp
  with t w2 p2 b2 l2 t2 ts p3 show ?thesis by simp
qed

theorem completion_shown_on_success_witness:
  "fst (run_diffeomorph (library_with KeyIgnored) two_files_script (at_try (library_with KeyIgnored) two_files)) = None
   \<and> fst (try_except_else (library_with KeyIgnored) two_files_script (at_try (library_with KeyIgnored) two_files)) = None
   \<and> current_progress (snd (try_except_else (library_with KeyIgnored) two_files_script
         (at_try (library_with KeyIgnored) two_files))) = 97
   \<and> current_count (window (snd (try_except_else (library_with KeyIgnored) two_files_script
         (at_try (library_with KeyIgnored) two_files))) ''-PBAR-'') = 100
   \<and> shown_value (window (snd (try_except_else (library_with KeyIgnored) two_files_script
         (at_try (library_with KeyIgnored) two_files))) ''-PBARLABEL-'') = ''Diffeomorphing complete!''
   \<and> current_progress (snd (try_statement (library_with KeyIgnored) two_files_script
         (at_try (library_with KeyIgnored) two_files))) = 0
   \<and> current_count (window (snd (try_statement (library_with KeyIgnored) two_files_script
         (at_try (library_with KeyIgnored) two_files))) ''-PBAR-'') = 0"
  using completion_shown_on_success [of "library_with KeyIgnored" two_files_script "at_try (library_with KeyIgnored) two_files"]
    run_diffeomorph_two_files
  by simp

subsection \<open>Restoring the stage slots\<close>

text \<open>
  C1 fails on the code. Installing for two files in the initial state and then running
  the four assignments of the cleanup leaves \<^verbatim>\<open>DiffeoImage.__init__\<close> holding the function
  of \<^verbatim>\<open>DiffeoImageDir.__init__\<close> (the cleanup reads that attribute), and leaves each of the
  other three slots holding the \<^verbatim>\<open>functools.partial\<close> object that \<^verbatim>\<open>ProgressUpdater.__get__\<close>
  hands out, through which \<^verbatim>\<open>unwrap\<close> does not see \<^verbatim>\<open>__wrapped__\<close>; the next installation
  wraps that object again.
\<close>

theorem uninstall_does_not_restore:
  "diffeo world0 DiffeoImage_init = Function ''DiffeoImage.__init__''
   \<and> diffeo (snd (uninstall (snd (install 2 world0)))) DiffeoImage_init = Function ''DiffeoImageDir.__init__''
   \<and> diffeo (snd (uninstall (snd (install 2 world0)))) DiffeoImage_getdiffeo =
       Partial (ProgressUpdater (Function ''DiffeoImage._getdiffeo'') ''-PBAR-'' ''-PBARLABEL-''
                  ''Generating diffeomorphic flow field...'' 12 True (Some 1)) PyNone
   \<and> diffeo (snd (uninstall (snd (install 2 world0)))) DiffeoImageDir_save =
       Partial (ProgressUpdater (Function ''DiffeoImageDir.save'') ''-PBAR-'' ''-PBARLABEL-''
                  ''Saving files (do not close window!)...'' 5 False None) PyNone
   \<and> diffeo (snd (install 2 (snd (uninstall (snd (install 2 world0)))))) DiffeoImage_getdiffeo =
       ProgressUpdater
         (Partial (ProgressUpdater (Function ''DiffeoImage._getdiffeo'') ''-PBAR-'' ''-PBARLABEL-''
                     ''Generating diffeomorphic flow field...'' 12 True (Some 1)) PyNone)
         ''-PBAR-'' ''-PBARLABEL-'' ''Generating diffeomorphic flow field...'' 12 True (Some 1)
   \<and> diffeo (snd (uninstall (snd (install 2 (snd (uninstall (snd (install 2 world0)))))))) DiffeoImage_getdiffeo =
       Partial (ProgressUpdater
         (Partial (ProgressUpdater (Function ''DiffeoImage._getdiffeo'') ''-PBAR-'' ''-PBARLABEL-''
                     ''Generating diffeomorphic flow field...'' 12 True (Some 1)) PyNone)
         ''-PBAR-'' ''-PBARLABEL-'' ''Generating diffeomorphic flow field...'' 12 True (Some 1)) PyNone"
  by (simp add: world0_def install_def wrap_def ProgressUpdater_init_def uninstall_def unwrap_into_def)

lemma call_shape:
  "call lib c args kw out w = (r, c', w') \<Longrightarrow>
     (\<forall>n. c = Function n \<longrightarrow> c' = Function n)
     \<and> (\<forall>n v. c = Partial (Function n) v \<longrightarrow> c' = Partial (Function n) v)"
  by (cases c) (auto split: prod.splits)

lemma call_diffeo: "call lib c args kw out w = (r, c', w') \<Longrightarrow> diffeo w' = diffeo w"
proof (induction c arbitrary: args w r c' w')
  case (Function name)
  then show ?case by auto
next
  case (ProgressUpdater f pbar label_k lbl inc each_file fc)
  have el: "element_update lib key attrs u = (e, u') \<Longrightarrow> diffeo u' = diffeo u" for key attrs u e u'
    by (auto simp: element_update_def split: sum.splits option.splits)
  have b: "seq [advance inc, (\<lambda>w. element_update lib pbar [Current_count (current_progress w)] w)] u = (e, u')
       \<Longrightarrow> diffeo u' = diffeo u" for u e u'
    by (auto simp: advance_def split: option.splits prod.splits dest: el)
  have a: "seq [element_update lib label_k [Value ext], refresh, print_builtin args kw] u = (e, u')
       \<Longrightarrow> diffeo u' = diffeo u" for ext u e u'
    by (auto simp: refresh_def print_builtin_def split: option.splits prod.splits if_splits dest: el)
  from call_updater_cases [OF ProgressUpdater.prems] show ?case
  proof (elim disjE exE conjE)
    fix e
    assume "seq [advance inc, (\<lambda>w. element_update lib pbar [Current_count (current_progress w)] w)] w = (Some e, w')"
    then show ?thesis by (rule b)
  next
    fix e
    assume "seq [advance inc, (\<lambda>w. element_update lib pbar [Current_count (current_progress w)] w)] w = (None, w')"
    then show ?thesis by (rule b)
  next
    fix w1 ext fc' e
    assume a1: "seq [advance inc, (\<lambda>w. element_update lib pbar [Current_count (current_progress w)] w)] w = (None, w1)"
      and a2: "seq [element_update lib label_k [Value ext], refresh, print_builtin args kw] w1 = (Some e, w')"
    from b [OF a1] a [OF a2] show ?thesis by simp
  next
    fix w1 ext fc' w2 f'
    assume a1: "seq [advance inc, (\<lambda>w. element_update lib pbar [Current_count (current_progress w)] w)] w = (None, w1)"
      and a2: "seq [element_update lib label_k [Value ext], refresh, print_builtin args kw] w1 = (None, w2)"
      and a3: "call lib f args kw out w2 = (r, f', w')"
    from b [OF a1] a [OF a2] ProgressUpdater.IH [OF a3] show ?thesis by simp
  qed
next
  case (Partial c v)
  obtain r1 c1 w1 where c: "call lib c (v # args) kw out w = (r1, c1, w1)"
    by (cases "call lib c (v # args) kw out w")
  from Partial.IH [OF c] Partial.prems c show ?case by auto
qed

lemma invoke_keeps_function:
  assumes "invoke lib s inst args kw out w = (r, w')" and "diffeo w t = Function n"
  shows "diffeo w' t = Function n"
proof -
  obtain r1 c1 w1 where c: "call lib (descr_get (diffeo w s) inst) args kw out w = (r1, c1, w1)"
    by (cases "call lib (descr_get (diffeo w s) inst) args kw out w")
  from call_diffeo [OF c] have d: "diffeo w1 = diffeo w" .
  show ?thesis
  proof (cases "t = s")
    case False
    with assms c d show ?thesis by (auto simp: invoke_def simp del: call.simps)
  next
    case True
    with assms(2) have ds: "diffeo w s = Function n" by simp
    from call_shape [OF c] ds have "c1 = Function n \<or> (\<exists>v. c1 = Partial (Function n) v)"
      by (cases "inst = PyNone") auto
    with assms(1) c ds True show ?thesis
      by (auto simp: invoke_def simp del: call.simps)
  qed
qed

lemma run_stages_keeps_function:
  "run_stages lib cs w = (e, w') \<Longrightarrow> diffeo w t = Function n \<Longrightarrow> diffeo w' t = Function n"
proof (induction cs arbitrary: w)
  case Nil
  then show ?case by simp
next
  case (Cons a cs)
  obtain s inst args kw out where a: "a = (s, inst, args, kw, out)" by (cases a)
  obtain r w1 where i: "invoke lib s inst args kw out w = (r, w1)"
    by (cases "invoke lib s inst args kw out w")
  from invoke_keeps_function [OF i Cons.prems(2)] have d1: "diffeo w1 t = Function n" .
  show ?case
  proof (cases r)
    case (Inl x)
    with Cons.prems(1) a i d1 show ?thesis by simp
  next
    case (Inr y)
    with Cons.prems(1) a i have "run_stages lib cs w1 = (e, w')" by simp
    from Cons.IH [OF this d1] show ?thesis .
  qed
qed

lemma try_except_else_keeps_function:
  assumes "try_except_else lib sc w = (e, w')" and "diffeo w t = Function n"
  shows "diffeo w' t = Function n"
proof -
  have el: "element_update lib key attrs u = (x, u') \<Longrightarrow> diffeo u' = diffeo u" for key attrs u x u'
    by (auto simp: element_update_def split: sum.splits option.splits)
  have ex: "except_FileNotFoundError lib u = (x, u') \<Longrightarrow> diffeo u' = diffeo u" for u x u'
    by (auto simp: except_FileNotFoundError_def split: option.splits prod.splits dest!: el)
  obtain e0 w0 where r0: "run_stages lib (fst sc) (w\<lparr>trace := trace w @ [RunDiffeomorph]\<rparr>) = (e0, w0)"
    by (cases "run_stages lib (fst sc) (w\<lparr>trace := trace w @ [RunDiffeomorph]\<rparr>)")
  from assms(2) have "diffeo (w\<lparr>trace := trace w @ [RunDiffeomorph]\<rparr>) t = Function n" by simp
  from run_stages_keeps_function [OF r0 this] have d0: "diffeo w0 t = Function n" .
  obtain e1 w1 where r1: "run_diffeomorph lib sc w = (e1, w1)"
    by (cases "run_diffeomorph lib sc w")
  with r0 have "w1 = w0" by (auto simp: run_diffeomorph_def split: option.splits)
  with d0 have d1: "diffeo w1 t = Function n" by simp
  from assms(1) r1 have "diffeo w' = diffeo w1"
    by (auto simp: try_except_else_def else_block_effect split: option.splits if_splits dest: ex)
  with d1 show ?thesis by simp
qed

text \<open>
  The same holds for the handler as a whole, in any state in which
  \<^verbatim>\<open>DiffeoImageDir.__init__\<close> is a plain function and for every pipeline: after a run that
  reached the \<^verbatim>\<open>try\<close> statement, \<^verbatim>\<open>DiffeoImage.__init__\<close> holds that function.
\<close>

lemma run_leaves_wrong_init:
  assumes "rejection v = None"
    and "py_int lib (MAXDISTORTION v) = Inr maxdistortion"
    and "py_int lib (NSTEPS v) = Inr nsteps"
    and "diffeo w DiffeoImageDir_init = Function n"
  shows "diffeo (snd (run_handler lib ep v w)) DiffeoImage_init = Function n"
proof -
  from run_handler_accepted [OF assms(1-3), of w ep] obtain w1 w2 where
    p: "prepare lib w = (None, w1)"
    and i: "install (int (length (split_on CHR '';'' (INPUTS v)))) w1 = (None, w2)"
    and r: "run_handler lib ep v w =
               try_statement lib (ep (split_on CHR '';'' (INPUTS v)) (OUTPUT v) maxdistortion nsteps
                                    (SAVE_STEPS v) (\<not> NO_UPSCALING v)) w2"
    by blast
  let ?sc = "ep (split_on CHR '';'' (INPUTS v)) (OUTPUT v) maxdistortion nsteps (SAVE_STEPS v) (\<not> NO_UPSCALING v)"
  from prepare_effect [of lib w] p have d1: "diffeo w1 = diffeo w" by auto
  have "int (length (split_on CHR '';'' (INPUTS v))) \<noteq> 0"
    using split_on_nonempty [of "CHR '';''" "INPUTS v"] by simp
  from install_fresh [OF this, of w1] i d1 assms(4)
  have d2: "diffeo w2 DiffeoImageDir_init = Function n" by auto
  obtain exc w3 where t: "try_except_else lib ?sc w2 = (exc, w3)"
    by (cases "try_except_else lib ?sc w2")
  from try_except_else_keeps_function [OF t d2] have d3: "diffeo w3 DiffeoImageDir_init = Function n" .
  from finally_block_effect [of lib w3] obtain w4 where
    f: "finally_block lib w3 = (None, w4)"
    and d4: "diffeo w4 = (diffeo w3)
                 (DiffeoImage_init := unwrap (descr_get (diffeo w3 DiffeoImageDir_init) PyNone),
                  DiffeoImage_getdiffeo := unwrap (descr_get (diffeo w3 DiffeoImage_getdiffeo) PyNone),
                  DiffeoImage_interpolate_image := unwrap (descr_get (diffeo w3 DiffeoImage_interpolate_image) PyNone),
                  DiffeoImageDir_save := unwrap (descr_get (diffeo w3 DiffeoImageDir_save) PyNone))"
    by blast
  from t f have "snd (try_statement lib ?sc w2) = w4" by (simp add: try_statement_def)
  with r d4 d3 show ?thesis by simp
qed

subsection \<open>The missing-file failure\<close>

text \<open>
  C3 fails on the code. In a first run on one file whose pipeline raises the
  missing-file error, the handler clears the input field but addresses the key
  \<^verbatim>\<open>-OUTPUTS-\<close>, which the layout does not declare (the output field is \<^verbatim>\<open>-OUTPUT-\<close>).
  When the window ignores the unknown key, the output field keeps its text; when it
  raises \<^verbatim>\<open>KeyError\<close>, the output field keeps its text, the message is never shown and
  the exception leaves the handler. In both cases the cleanup runs, the accumulator is
  0, and \<^verbatim>\<open>DiffeoImage.__init__\<close> is left holding the function of \<^verbatim>\<open>DiffeoImageDir.__init__\<close>.
\<close>

theorem missing_file_leaves_output_field:
  "fst (run_handler (library_with KeyIgnored) pipeline_missing_file one_file (world_with_fields one_file)) = None
   \<and> shown_value (window (snd (run_handler (library_with KeyIgnored) pipeline_missing_file one_file
         (world_with_fields one_file))) ''-INPUTS-'') = ''''
   \<and> shown_value (window (snd (run_handler (library_with KeyIgnored) pipeline_missing_file one_file
         (world_with_fields one_file))) ''-OUTPUT-'') = ''out''
   \<and> shown_value (window (snd (run_handler (library_with KeyIgnored) pipeline_missing_file one_file
         (world_with_fields one_file))) ''-ERROR-'') = ''ERROR: One or more files not found''
   \<and> current_progress (snd (run_handler (library_with KeyIgnored) pipeline_missing_file one_file
         (world_with_fields one_file))) = 0
   \<and> diffeo (snd (run_handler (library_with KeyIgnored) pipeline_missing_file one_file
         (world_with_fields one_file))) DiffeoImage_init = Function ''DiffeoImageDir.__init__''
   \<and> fst (run_handler (library_with KeyRaises) pipeline_missing_file one_file (world_with_fields one_file))
       = Some (KeyError ''-OUTPUTS-'')
   \<and> shown_value (window (snd (run_handler (library_with KeyRaises) pipeline_missing_file one_file
         (world_with_fields one_file))) ''-OUTPUT-'') = ''out''
   \<and> shown_value (window (snd (run_handler (library_with KeyRaises) pipeline_missing_file one_file
         (world_with_fields one_file))) ''-ERROR-'') = ''''
   \<and> current_progress (snd (run_handler (library_with KeyRaises) pipeline_missing_file one_file
         (world_with_fields one_file))) = 0"
proof -
  have run: "run_handler (library_with mk) pipeline_missing_file one_file (world_with_fields one_file)
      = try_statement (library_with mk)
          ([(DiffeoImage_init, PyObj ''a.png'', [], [], Inl FileNotFoundError)], None)
          (at_try (library_with mk) one_file)" for mk
    by (simp add: run_handler_def rejection_def one_file_def library_with_def int_of_digits_def
          at_try_def pipeline_missing_file_def prepare_def element_update_layout layout_keys_def
          install_def wrap_def ProgressUpdater_init_def world_with_fields_def world0_def)
  have pipeline: "run_diffeomorph (library_with mk)
          ([(DiffeoImage_init, PyObj ''a.png'', [], [], Inl FileNotFoundError)], None)
          (at_try (library_with mk) one_file)
       = (Some FileNotFoundError, snd (run_diffeomorph (library_with mk)
          ([(DiffeoImage_init, PyObj ''a.png'', [], [], Inl FileNotFoundError)], None)
          (at_try (library_with mk) one_file)))
     \<and> shown_value (window (snd (run_diffeomorph (library_with mk)
          ([(DiffeoImage_init, PyObj ''a.png'', [], [], Inl FileNotFoundError)], None)
          (at_try (library_with mk) one_file))) ''-OUTPUT-'') = ''out''
     \<and> shown_value (window (snd (run_diffeomorph (library_with mk)
          ([(DiffeoImage_init, PyObj ''a.png'', [], [], Inl FileNotFoundError)], None)
          (at_try (library_with mk) one_file))) ''-ERROR-'') = ''''
     \<and> diffeo (snd (run_diffeomorph (library_with mk)
          ([(DiffeoImage_init, PyObj ''a.png'', [], [], Inl FileNotFoundError)], None)
          (at_try (library_with mk) one_file))) DiffeoImageDir_init = Function ''DiffeoImageDir.__init__''" for mk
    by (simp add: run_diffeomorph_def invoke_def at_try_def one_file_def prepare_def
          element_update_layout layout_keys_def install_def wrap_def ProgressUpdater_init_def
          world_with_fields_def world0_def window0_def advance_def refresh_def print_builtin_def
          extended_label_def)
  have ignored: "except_FileNotFoundError (library_with KeyIgnored) w =
      (None, w\<lparr>window := (window w)
                 (''-INPUTS-'' := (window w ''-INPUTS-'')\<lparr>shown_value := ''''\<rparr>,
                  ''-ERROR-'' := (window w ''-ERROR-'')\<lparr>shown_value := ''ERROR: One or more files not found''\<rparr>),
               trace := trace w @ [Update ''-INPUTS-'' [Value ''''],
                                   Update ''-ERROR-'' [Value ''ERROR: One or more files not found'']]\<rparr>)" for w
    by (simp add: except_FileNotFoundError_def element_update_def window_getitem_def layout_keys_def
          library_with_def)
  have raises: "except_FileNotFoundError (library_with KeyRaises) w =
      (Some (KeyError ''-OUTPUTS-''),
       w\<lparr>window := (window w)(''-INPUTS-'' := (window w ''-INPUTS-'')\<lparr>shown_value := ''''\<rparr>),
         trace := trace w @ [Update ''-INPUTS-'' [Value '''']]\<rparr>)" for w
    by (simp add: except_FileNotFoundError_def element_update_def window_getitem_def layout_keys_def
          library_with_def)
  let ?sc = "([(DiffeoImage_init, PyObj ''a.png'', [], [], Inl FileNotFoundError)], None) :: script"
  let ?w1 = "\<lambda>mk. snd (run_diffeomorph (library_with mk) ?sc (at_try (library_with mk) one_file))"
  have t: "try_except_else (library_with mk) ?sc (at_try (library_with mk) one_file)
      = except_FileNotFoundError (library_with mk) (?w1 mk)" for mk
    using pipeline [of mk]
    by (cases "run_diffeomorph (library_with mk) ?sc (at_try (library_with mk) one_file)")
       (simp add: try_except_else_def)
  have fin: "try_except_else lib sc w = (exc, w2) \<Longrightarrow>
      fst (try_statement lib sc w) = exc
      \<and> current_progress (snd (try_statement lib sc w)) = 0
      \<and> shown_value (window (snd (try_statement lib sc w)) ''-INPUTS-'') = shown_value (window w2 ''-INPUTS-'')
      \<and> shown_value (window (snd (try_statement lib sc w)) ''-OUTPUT-'') = shown_value (window w2 ''-OUTPUT-'')
      \<and> shown_value (window (snd (try_statement lib sc w)) ''-ERROR-'') = shown_value (window w2 ''-ERROR-'')
      \<and> diffeo (snd (try_statement lib sc w)) DiffeoImage_init
          = unwrap (descr_get (diffeo w2 DiffeoImageDir_init) PyNone)" for lib sc w exc w2
    using finally_block_effect [of lib w2] by (auto simp: try_statement_def)
  from fin [OF t [of KeyIgnored, unfolded ignored]] fin [OF t [of KeyRaises, unfolded raises]]
    pipeline [of KeyIgnored] pipeline [of KeyRaises] run [of KeyIgnored] run [of KeyRaises]
  show ?thesis by simp
qed

subsection \<open>Delegation to the wrapped function\<close>

lemma call_positional_only:
  assumes "pbar \<in> set layout_keys" and "label_k \<in> set layout_keys"
    and "extended_label lbl each_file fc = Inr (ext, fc')"
    and "call lib (ProgressUpdater (Function n) pbar label_k lbl inc each_file fc) args [] out w = (r, c', w')"
  shows "r = out
       \<and> c' = ProgressUpdater (Function n) pbar label_k lbl inc each_file fc'
       \<and> current_progress w' = current_progress w + inc
       \<and> trace w' = trace w @ [Update pbar [Current_count (current_progress w + inc)],
                                Update label_k [Value ext], Refresh, Entered n args []]"
  using assms
  by (auto simp: advance_def refresh_def print_builtin_def element_update_layout)

text \<open>
  C8 fails on the code. \<^verbatim>\<open>__call__\<close> passes the keyword arguments of the invocation to
  \<^verbatim>\<open>print\<close> before it delegates. Invoked with the keyword argument \<^verbatim>\<open>order=1\<close>, the
  instrumentor of the interpolation stage advances the accumulator, shows its label,
  refreshes the window and then raises \<^verbatim>\<open>TypeError\<close>: the stage function is never
  entered and its result 7 is not returned. The same invocation without the keyword
  argument enters the stage function with the instance as its argument and returns 7.
\<close>

theorem keyword_argument_not_forwarded:
  "fst (invoke (library_with KeyIgnored) DiffeoImage_interpolate_image (PyObj ''img'') []
          [(''order'', PyInt 1)] (Inr (PyInt 7)) (snd (install 2 world0))) = Inl TypeError
   \<and> trace (snd (invoke (library_with KeyIgnored) DiffeoImage_interpolate_image (PyObj ''img'') []
          [(''order'', PyInt 1)] (Inr (PyInt 7)) (snd (install 2 world0))))
       = [Update ''-PBAR-'' [Current_count 32],
          Update ''-PBARLABEL-''
            [Value ''File #1: Interpolating image (this may take a while; do not close window!)...''],
          Refresh]
   \<and> fst (invoke (library_with KeyIgnored) DiffeoImage_interpolate_image (PyObj ''img'') []
          [] (Inr (PyInt 7)) (snd (install 2 world0))) = Inr (PyInt 7)
   \<and> trace (snd (invoke (library_with KeyIgnored) DiffeoImage_interpolate_image (PyObj ''img'') []
          [] (Inr (PyInt 7)) (snd (install 2 world0))))
       = [Update ''-PBAR-'' [Current_count 32],
          Update ''-PBARLABEL-''
            [Value ''File #1: Interpolating image (this may take a while; do not close window!)...''],
          Refresh,
          Entered ''DiffeoImage._interpolate_image'' [PyObj ''img''] []]"
  by (simp add: invoke_def world0_def install_def wrap_def ProgressUpdater_init_def
        advance_def refresh_def print_builtin_def print_keywords_def element_update_layout
        layout_keys_def extended_label_def str_int_def str_nat.simps)

subsection \<open>The second run\<close>









end
